theory Spec2Isabelle
  imports Complex_Main "HOL-Library.Word"
begin

section \<open>Python values\<close>

text \<open>
  The endpoints of \<^verbatim>\<open>backend/endpoints.py\<close> move JSON-shaped Python values around
  (\<^verbatim>\<open>dict[str, Any]\<close>). A float is the rational number it denotes, or one of the three
  special values; an \<^verbatim>\<open>int\<close> is unbounded; a \<^verbatim>\<open>dict\<close> is an association list in insertion
  order whose lookup takes the first binding of a key.
\<close>

datatype pyfloat = Finite rat | PosInf | NegInf | NaN

datatype pyval =
    PNone
  | PBool bool
  | PInt int
  | PFloat pyfloat
  | PStr string
  | PList "pyval list"
  | PDict "(string \<times> pyval) list"

type_synonym pydict = "(string \<times> pyval) list"

section \<open>Graph model and wire codec\<close>

text \<open>
  \<^verbatim>\<open>Node\<close>, \<^verbatim>\<open>Edge\<close>, \<^verbatim>\<open>GraphMeta\<close> and \<^verbatim>\<open>Graph\<close> are the types of \<^verbatim>\<open>obs.graph\<close>; the
  \<^verbatim>\<open>...Response\<close> records are the pydantic models of lines 30-134. Field names carry a
  prefix because a record field is a global constant.
\<close>

record Node =
  n_id :: string
  n_type :: string
  n_tags :: "string list"
  n_attrs :: pydict

record Edge =
  e_source :: string
  e_target :: string
  e_type :: string
  e_attrs :: pydict

record GraphMeta =
  m_created_at :: string
  m_source :: string
  m_input :: pydict
  m_timings :: pydict
  m_success :: bool
  m_errors :: "string list"
  m_error_details :: "pydict list"
  m_extra :: pydict

record Graph =
  g_nodes :: "Node list"
  g_edges :: "Edge list"
  g_meta :: GraphMeta

record NodeResponse =
  nr_id :: string
  nr_type :: string
  nr_tags :: "string list"
  nr_attrs :: pydict

record EdgeResponse =
  er_source :: string
  er_target :: string
  er_type :: string
  er_attrs :: pydict

record GraphMetaResponse =
  mr_created_at :: string
  mr_source :: string
  mr_input :: pydict
  mr_timings :: pydict
  mr_success :: bool
  mr_errors :: "string list"
  mr_error_details :: "pydict list"
  mr_extra :: pydict

record GraphResponse =
  gr_nodes :: "NodeResponse list"
  gr_edges :: "EdgeResponse list"
  gr_meta :: GraphMetaResponse

text \<open>
  \<^verbatim>\<open>list(xs)\<close> and \<^verbatim>\<open>dict(d)\<close> build a new object with the same contents; a value here
  has no identity, so the copy is the value.
\<close>

definition list_copy :: "'a list \<Rightarrow> 'a list" where
  "list_copy xs = xs"

definition dict_copy :: "pydict \<Rightarrow> pydict" where
  "dict_copy d = d"

text \<open>
  The field declarations of the pydantic models: a field with a default may be absent on
  the wire (\<open>None\<close> here) and then takes the declared default.
\<close>

definition mk_NodeResponse ::
  "string \<Rightarrow> string \<Rightarrow> string list option \<Rightarrow> pydict option \<Rightarrow> NodeResponse" where
  "mk_NodeResponse i t tags attrs =
     \<lparr>nr_id = i, nr_type = t,
      nr_tags = (case tags of None \<Rightarrow> [] | Some ts \<Rightarrow> ts),
      nr_attrs = (case attrs of None \<Rightarrow> [] | Some a \<Rightarrow> a)\<rparr>"

definition mk_EdgeResponse ::
  "string \<Rightarrow> string \<Rightarrow> string \<Rightarrow> pydict option \<Rightarrow> EdgeResponse" where
  "mk_EdgeResponse s t ty attrs =
     \<lparr>er_source = s, er_target = t, er_type = ty,
      er_attrs = (case attrs of None \<Rightarrow> [] | Some a \<Rightarrow> a)\<rparr>"

definition mk_GraphMetaResponse ::
  "string option \<Rightarrow> string option \<Rightarrow> pydict option \<Rightarrow> pydict option \<Rightarrow> bool option \<Rightarrow>
   string list option \<Rightarrow> pydict list option \<Rightarrow> pydict option \<Rightarrow> GraphMetaResponse" where
  "mk_GraphMetaResponse created_at source inp timings success errors error_details extra =
     \<lparr>mr_created_at = (case created_at of None \<Rightarrow> '''' | Some s \<Rightarrow> s),
      mr_source = (case source of None \<Rightarrow> '''' | Some s \<Rightarrow> s),
      mr_input = (case inp of None \<Rightarrow> [] | Some d \<Rightarrow> d),
      mr_timings = (case timings of None \<Rightarrow> [] | Some d \<Rightarrow> d),
      mr_success = (case success of None \<Rightarrow> True | Some b \<Rightarrow> b),
      mr_errors = (case errors of None \<Rightarrow> [] | Some es \<Rightarrow> es),
      mr_error_details = (case error_details of None \<Rightarrow> [] | Some ds \<Rightarrow> ds),
      mr_extra = (case extra of None \<Rightarrow> [] | Some d \<Rightarrow> d)\<rparr>"

definition mk_GraphResponse ::
  "NodeResponse list option \<Rightarrow> EdgeResponse list option \<Rightarrow> GraphMetaResponse option \<Rightarrow>
   GraphResponse" where
  "mk_GraphResponse nodes edges meta =
     \<lparr>gr_nodes = (case nodes of None \<Rightarrow> [] | Some ns \<Rightarrow> ns),
      gr_edges = (case edges of None \<Rightarrow> [] | Some es \<Rightarrow> es),
      gr_meta = (case meta of
                   None \<Rightarrow> mk_GraphMetaResponse None None None None None None None None
                 | Some m \<Rightarrow> m)\<rparr>"

definition from_node :: "Node \<Rightarrow> NodeResponse" where
  "from_node node =
     mk_NodeResponse (n_id node) (n_type node)
       (Some (list_copy (n_tags node))) (Some (dict_copy (n_attrs node)))"

definition to_node :: "NodeResponse \<Rightarrow> Node" where
  "to_node self =
     \<lparr>n_id = nr_id self, n_type = nr_type self,
      n_tags = list_copy (nr_tags self), n_attrs = dict_copy (nr_attrs self)\<rparr>"

definition from_edge :: "Edge \<Rightarrow> EdgeResponse" where
  "from_edge edge =
     mk_EdgeResponse (e_source edge) (e_target edge) (e_type edge)
       (Some (dict_copy (e_attrs edge)))"

definition to_edge :: "EdgeResponse \<Rightarrow> Edge" where
  "to_edge self =
     \<lparr>e_source = er_source self, e_target = er_target self, e_type = er_type self,
      e_attrs = dict_copy (er_attrs self)\<rparr>"

definition from_meta :: "GraphMeta \<Rightarrow> GraphMetaResponse" where
  "from_meta meta =
     mk_GraphMetaResponse (Some (m_created_at meta)) (Some (m_source meta))
       (Some (dict_copy (m_input meta))) (Some (dict_copy (m_timings meta)))
       (Some (m_success meta)) (Some (list_copy (m_errors meta)))
       (Some (list_copy (m_error_details meta))) (Some (dict_copy (m_extra meta)))"

definition to_meta :: "GraphMetaResponse \<Rightarrow> GraphMeta" where
  "to_meta self =
     \<lparr>m_created_at = mr_created_at self, m_source = mr_source self,
      m_input = dict_copy (mr_input self), m_timings = dict_copy (mr_timings self),
      m_success = mr_success self, m_errors = list_copy (mr_errors self),
      m_error_details = list_copy (mr_error_details self),
      m_extra = dict_copy (mr_extra self)\<rparr>"

definition from_graph :: "Graph \<Rightarrow> GraphResponse" where
  "from_graph graph =
     mk_GraphResponse (Some (map from_node (g_nodes graph)))
       (Some (map from_edge (g_edges graph))) (Some (from_meta (g_meta graph)))"

definition to_graph :: "GraphResponse \<Rightarrow> Graph" where
  "to_graph self =
     \<lparr>g_nodes = map to_node (gr_nodes self), g_edges = map to_edge (gr_edges self),
      g_meta = to_meta (gr_meta self)\<rparr>"

section \<open>Exceptions and the Python built-ins the endpoints call\<close>

text \<open>
  An exception is its class and its message (\<^verbatim>\<open>str(exc)\<close>); FastAPI's \<^verbatim>\<open>HTTPException\<close>
  carries a status code and a detail string. \<^verbatim>\<open>json.JSONDecodeError\<close> and
  \<^verbatim>\<open>UnicodeDecodeError\<close> are subclasses of \<^verbatim>\<open>ValueError\<close>; the other classes used here are
  unrelated to each other. An \<^verbatim>\<open>except\<close> clause catches the instances of the classes it
  lists, and never an \<^verbatim>\<open>HTTPException\<close>.
\<close>

datatype exn_class =
  ValueError | TypeError | OverflowError | OSError | JSONDecodeError | YAMLError
  | UnicodeDecodeError

datatype exn = Exn exn_class string | HTTPException nat string

fun is_subclass :: "exn_class \<Rightarrow> exn_class \<Rightarrow> bool" where
  "is_subclass JSONDecodeError ValueError = True"
| "is_subclass UnicodeDecodeError ValueError = True"
| "is_subclass c d = (c = d)"

fun caught_by :: "exn \<Rightarrow> exn_class list \<Rightarrow> bool" where
  "caught_by (Exn c m) classes = list_ex (is_subclass c) classes"
| "caught_by (HTTPException code detail) classes = False"

fun exn_str :: "exn \<Rightarrow> string" where
  "exn_str (Exn c m) = m"
| "exn_str (HTTPException code detail) = detail"

text \<open>
  What the interpreter does with text is not written in this repository and is taken as
  a parameter: \<^verbatim>\<open>int(s)\<close> and \<^verbatim>\<open>float(s)\<close> on a string (\<open>None\<close> when the string is not a
  literal of the type) and \<^verbatim>\<open>repr\<close>.
\<close>

record runtime =
  int_of_str :: "string \<Rightarrow> int option"
  float_of_str :: "string \<Rightarrow> pyfloat option"
  repr_of :: "pyval \<Rightarrow> string"

definition quoted :: "string \<Rightarrow> string" where
  "quoted s = CHR 0x27 # s @ [CHR 0x27]"

fun type_name :: "pyval \<Rightarrow> string" where
  "type_name PNone = ''NoneType''"
| "type_name (PBool b) = ''bool''"
| "type_name (PInt n) = ''int''"
| "type_name (PFloat f) = ''float''"
| "type_name (PStr s) = ''str''"
| "type_name (PList xs) = ''list''"
| "type_name (PDict d) = ''dict''"

text \<open>\<^verbatim>\<open>int(x)\<close>: a float is truncated towards zero.\<close>

fun py_int :: "runtime \<Rightarrow> pyval \<Rightarrow> exn + int" where
  "py_int rt (PInt n) = Inr n"
| "py_int rt (PBool b) = Inr (if b then 1 else 0)"
| "py_int rt (PFloat (Finite q)) = Inr (if 0 \<le> q then \<lfloor>q\<rfloor> else \<lceil>q\<rceil>)"
| "py_int rt (PFloat NaN) = Inl (Exn ValueError ''cannot convert float NaN to integer'')"
| "py_int rt (PFloat PosInf) =
     Inl (Exn OverflowError ''cannot convert float infinity to integer'')"
| "py_int rt (PFloat NegInf) =
     Inl (Exn OverflowError ''cannot convert float infinity to integer'')"
| "py_int rt (PStr s) =
     (case int_of_str rt s of
        Some n \<Rightarrow> Inr n
      | None \<Rightarrow>
          Inl (Exn ValueError
                (''invalid literal for int() with base 10: '' @ repr_of rt (PStr s))))"
| "py_int rt v =
     Inl (Exn TypeError
           (''int() argument must be a string, a bytes-like object or a real number, not ''
            @ quoted (type_name v)))"

text \<open>\<^verbatim>\<open>str(n)\<close> of an integer, and \<^verbatim>\<open>sep.join(xs)\<close>.\<close>

fun str_nat :: "nat \<Rightarrow> string" where
  "str_nat n =
     (if n < 10 then [''0123456789'' ! n]
      else str_nat (n div 10) @ [''0123456789'' ! (n mod 10)])"

declare str_nat.simps [simp del]

definition str_int :: "int \<Rightarrow> string" where
  "str_int i = (if i < 0 then CHR ''-'' # str_nat (nat (- i)) else str_nat (nat i))"

fun join :: "string \<Rightarrow> string list \<Rightarrow> string" where
  "join sep [] = ''''"
| "join sep [x] = x"
| "join sep (x # y # ys) = x @ sep @ join sep (y # ys)"

section \<open>Effects\<close>

text \<open>
  What an endpoint does besides returning: the calls it makes to the external services
  and to the network, and the lines it logs, in order. \<^verbatim>\<open>ClassifierTopologyInput\<close>,
  \<^verbatim>\<open>ClassifierOptions\<close> and \<^verbatim>\<open>LLMOptions\<close> are classes of \<^verbatim>\<open>obs.classifier\<close> and \<^verbatim>\<open>obs.llm\<close>:
  a constructor stores the arguments it is given.
\<close>

record TopologyInput =
  ti_id :: pyval
  ti_url :: pyval
  ti_content :: pyval
  ti_format :: pyval

record ClassifierOptions =
  co_min_confidence :: pyfloat
  co_use_llm :: bool
  co_metadata :: pydict

record LLMOptions =
  lo_backend :: pyval
  lo_model :: pyval
  lo_base_url :: pyval
  lo_min_confidence_threshold :: pyfloat
  lo_batch_size :: int
  lo_force :: bool

datatype effect =
    ScanNetwork int "string option" "string option"
  | DiscoverObjects string "string option" "string option" int
  | ClassifyGraphSync Graph TopologyInput ClassifierOptions
  | EnhanceGraphSync Graph LLMOptions
  | UrlOpen string nat
  | LogDiscoveryStart int
  | LogDiscoveryComplete nat
  | LogObjectScanStart int string
  | LogEnhanceRequest nat nat nat pyfloat
  | LogEnhanceResult bool nat nat "string list"

section \<open>Census and the census cache\<close>

record ProtocolRef =
  pr_address :: string
  pr_device_id :: pyval

text \<open>
  \<^verbatim>\<open>Device\<close> of \<^verbatim>\<open>obs.discovery.types\<close>: the fields this module reads. A point is
  opaque here: only the number of points of a device is used.
\<close>

typedecl Point

record Device =
  d_uid :: string
  d_name :: "string option"
  d_manufacturer :: "string option"
  d_points :: "Point list"
  d_protocol_ref :: "ProtocolRef option"

record ScanResult =
  sr_success :: bool
  sr_data :: "Device list"
  sr_errors :: "string list"

record DeviceCensusEntry =
  device_address :: string
  device_id :: int
  device_name :: "string option"
  vendor :: "string option"
  object_count :: int
  device_uid :: "string option"

type_synonym census_cache = "int \<rightharpoonup> string"

text \<open>\<^verbatim>\<open>_last_device_uids_by_id\<close> as the module is loaded.\<close>

definition initial_cache :: census_cache where
  "initial_cache = Map.empty"

definition device_to_census :: "runtime \<Rightarrow> Device \<Rightarrow> exn + DeviceCensusEntry" where
  "device_to_census rt device =
     (case d_protocol_ref device of
        None \<Rightarrow>
          Inl (Exn ValueError
                (''Device '' @ d_uid device @ '' is missing protocol_ref.device_id''))
      | Some protocol_ref \<Rightarrow>
          if pr_device_id protocol_ref = PNone then
            Inl (Exn ValueError
                  (''Device '' @ d_uid device @ '' is missing protocol_ref.device_id''))
          else
            (case py_int rt (pr_device_id protocol_ref) of
               Inl exc \<Rightarrow>
                 if caught_by exc [ValueError] then
                   Inl (Exn ValueError
                         (''Device '' @ d_uid device
                          @ '' has non-integer protocol_ref.device_id=''
                          @ repr_of rt (pr_device_id protocol_ref)))
                 else Inl exc
             | Inr dev_id \<Rightarrow>
                 Inr \<lparr>device_address = pr_address protocol_ref,
                      device_id = dev_id,
                      device_name = d_name device,
                      vendor = d_manufacturer device,
                      object_count = int (length (d_points device)),
                      device_uid = Some (d_uid device)\<rparr>))"

text \<open>
  The loop of lines 243-246, with its two accumulators. An exception raised for one
  device leaves the loop, and the function, at once.
\<close>

fun census_loop ::
  "runtime \<Rightarrow> Device list \<Rightarrow> DeviceCensusEntry list \<Rightarrow> census_cache \<Rightarrow>
   exn + (DeviceCensusEntry list \<times> census_cache)" where
  "census_loop rt [] census uid_map = Inr (census, uid_map)"
| "census_loop rt (device # rest) census uid_map =
     (case device_to_census rt device of
        Inl exc \<Rightarrow> Inl exc
      | Inr census_row \<Rightarrow>
          census_loop rt rest (census @ [census_row])
            (uid_map(device_id census_row \<mapsto> d_uid device)))"

text \<open>
  \<^verbatim>\<open>GET /discover\<close>. The result is what the handler returns or raises, the cache after the
  call, and the effects. The cache is cleared and refilled in one step under the lock
  (lines 248-250).
\<close>

definition discover_census ::
  "runtime \<Rightarrow> (int \<Rightarrow> string option \<Rightarrow> string option \<Rightarrow> ScanResult) \<Rightarrow>
   int \<Rightarrow> string option \<Rightarrow> string option \<Rightarrow> census_cache \<Rightarrow>
   (exn + DeviceCensusEntry list) \<times> census_cache \<times> effect list" where
  "discover_census rt scan_network timeout client_ip bbmd_ip cache =
     (let result = scan_network timeout client_ip bbmd_ip;
          started = [LogDiscoveryStart timeout, ScanNetwork timeout client_ip bbmd_ip]
      in
        if \<not> sr_success result then
          (let joined = join ''; '' (sr_errors result);
               detail = (if joined \<noteq> [] then joined else ''Unknown BACnet scan failure'')
           in (Inl (HTTPException 500 (''Network scan failed: '' @ detail)), cache, started))
        else
          (case census_loop rt (sr_data result) [] Map.empty of
             Inl exc \<Rightarrow> (Inl exc, cache, started)
           | Inr (census, uid_map) \<Rightarrow>
               (Inr census, Map.empty ++ uid_map,
                started @ [LogDiscoveryComplete (length census)])))"

text \<open>\<^verbatim>\<open>_last_device_uids_by_id.get(device_id)\<close>, lines 264-265.\<close>

definition cache_lookup :: "census_cache \<Rightarrow> int \<Rightarrow> string option" where
  "cache_lookup cache dev_id = cache dev_id"

record 'd ObjectsResult =
  or_success :: bool
  or_data :: 'd
  or_errors :: "string list"

text \<open>\<^verbatim>\<open>GET /discover/{device_id}/objects\<close>; it reads the cache and never writes it.\<close>

definition discover_device_objects ::
  "(string \<Rightarrow> string option \<Rightarrow> string option \<Rightarrow> int \<Rightarrow> 'd ObjectsResult) \<Rightarrow>
   ('d ObjectsResult \<Rightarrow> Graph) \<Rightarrow> census_cache \<Rightarrow>
   int \<Rightarrow> string option \<Rightarrow> string option \<Rightarrow> int \<Rightarrow>
   (exn + GraphResponse) \<times> effect list" where
  "discover_device_objects discover_objects objects_result_to_graph cache
     dev_id client_ip bbmd_ip rpm_batch_size =
     (case cache_lookup cache dev_id of
        None \<Rightarrow>
          (Inl (HTTPException 404
                 (''Device '' @ str_int dev_id
                  @ '' not found in last census. Run GET /discover first.'')), [])
      | Some uid \<Rightarrow>
          (let result = discover_objects uid client_ip bbmd_ip rpm_batch_size;
               made = [LogObjectScanStart dev_id uid,
                       DiscoverObjects uid client_ip bbmd_ip rpm_batch_size]
           in
             if \<not> or_success result then
               (let joined = join ''; '' (or_errors result);
                    detail = (if joined \<noteq> [] then joined
                              else ''Unknown BACnet object discovery failure'')
                in (Inl (HTTPException 500
                          (''Failed to scan device '' @ str_int dev_id @ '': '' @ detail)),
                    made))
             else (Inr (from_graph (objects_result_to_graph result)), made)))"

section \<open>Coercions and dictionaries\<close>

text \<open>
  \<^verbatim>\<open>float(n)\<close> of an integer is the nearest binary64 value, ties to even, and raises
  \<^verbatim>\<open>OverflowError\<close> when that value would be \<open>2 ^ 1024\<close> or more, that is from
  \<open>2 ^ 1024 - 2 ^ 970\<close> on.
\<close>

fun bit_length :: "nat \<Rightarrow> nat" where
  "bit_length n = (if n = 0 then 0 else Suc (bit_length (n div 2)))"

declare bit_length.simps [simp del]

definition round_to_double :: "nat \<Rightarrow> nat" where
  "round_to_double a =
     (let k = bit_length a in
      if k \<le> 53 then a
      else
        (let sh = k - 53; q = a div 2 ^ sh; r = a mod 2 ^ sh; h = 2 ^ (sh - 1)
         in (if h < r \<or> (r = h \<and> odd q) then q + 1 else q) * 2 ^ sh))"

definition float_of_int :: "int \<Rightarrow> exn + pyfloat" where
  "float_of_int n =
     (if 2 ^ 1024 - 2 ^ 970 \<le> \<bar>n\<bar> then
        Inl (Exn OverflowError ''int too large to convert to float'')
      else if n < 0 then Inr (Finite (- of_nat (round_to_double (nat (- n)))))
      else Inr (Finite (of_nat (round_to_double (nat n)))))"

text \<open>\<^verbatim>\<open>float(x)\<close>.\<close>

fun py_float :: "runtime \<Rightarrow> pyval \<Rightarrow> exn + pyfloat" where
  "py_float rt (PFloat f) = Inr f"
| "py_float rt (PInt n) = float_of_int n"
| "py_float rt (PBool b) = Inr (Finite (if b then 1 else 0))"
| "py_float rt (PStr s) =
     (case float_of_str rt s of
        Some f \<Rightarrow> Inr f
      | None \<Rightarrow>
          Inl (Exn ValueError
                (''could not convert string to float: '' @ repr_of rt (PStr s))))"
| "py_float rt v =
     Inl (Exn TypeError
           (''float() argument must be a string or a real number, not ''
            @ quoted (type_name v)))"

text \<open>\<^verbatim>\<open>bool(x)\<close>, which is also the truth value of \<^verbatim>\<open>x\<close> under \<^verbatim>\<open>not\<close>, \<^verbatim>\<open>and\<close>, \<^verbatim>\<open>or\<close>.\<close>

fun py_bool :: "pyval \<Rightarrow> bool" where
  "py_bool PNone = False"
| "py_bool (PBool b) = b"
| "py_bool (PInt n) = (n \<noteq> 0)"
| "py_bool (PFloat f) = (f \<noteq> Finite 0)"
| "py_bool (PStr s) = (s \<noteq> [])"
| "py_bool (PList xs) = (xs \<noteq> [])"
| "py_bool (PDict d) = (d \<noteq> [])"

text \<open>\<^verbatim>\<open>x < t\<close> for a float \<^verbatim>\<open>t\<close>: numbers compare by value, anything else raises.\<close>

fun float_lt :: "pyfloat \<Rightarrow> pyfloat \<Rightarrow> bool" where
  "float_lt (Finite a) (Finite b) = (a < b)"
| "float_lt (Finite a) PosInf = True"
| "float_lt NegInf (Finite b) = True"
| "float_lt NegInf PosInf = True"
| "float_lt a b = False"

fun py_lt_float :: "pyval \<Rightarrow> pyfloat \<Rightarrow> exn + bool" where
  "py_lt_float (PFloat a) t = Inr (float_lt a t)"
| "py_lt_float (PInt n) t = Inr (float_lt (Finite (of_int n)) t)"
| "py_lt_float (PBool b) t = Inr (float_lt (Finite (if b then 1 else 0)) t)"
| "py_lt_float v t =
     Inl (Exn TypeError
           (quoted ''<'' @ '' not supported between instances of '' @ quoted (type_name v)
            @ '' and '' @ quoted ''float''))"

text \<open>\<^verbatim>\<open>d.get(k, default)\<close>, \<^verbatim>\<open>k in d\<close> and \<^verbatim>\<open>d[k] = v\<close>.\<close>

definition dict_get :: "pydict \<Rightarrow> string \<Rightarrow> pyval \<Rightarrow> pyval" where
  "dict_get d k dflt = (case map_of d k of None \<Rightarrow> dflt | Some v \<Rightarrow> v)"

definition dict_has :: "pydict \<Rightarrow> string \<Rightarrow> bool" where
  "dict_has d k = (case map_of d k of None \<Rightarrow> False | Some v \<Rightarrow> True)"

fun dict_set :: "string \<Rightarrow> pyval \<Rightarrow> pydict \<Rightarrow> pydict" where
  "dict_set k v [] = [(k, v)]"
| "dict_set k v (kv # d) = (if fst kv = k then (k, v) # d else kv # dict_set k v d)"

section \<open>Ontology registry\<close>

record OntologyInfo =
  oi_id :: string
  oi_name :: string
  oi_version :: "string option"
  oi_url :: "string option"

type_synonym registry = "(string \<times> OntologyInfo) list"

text \<open>\<^verbatim>\<open>_ONTOLOGIES\<close>, lines 189-196. The endpoints take the registry as an argument.\<close>

definition ONTOLOGIES :: registry where
  "ONTOLOGIES =
     [(''brick_v1.4.4'',
       \<lparr>oi_id = ''brick_v1.4.4'', oi_name = ''Brick'', oi_version = Some ''1.4.4'',
        oi_url = Some ''https://brickschema.org/schema/1.4.4/Brick.jsonld''\<rparr>)]"

section \<open>Classify\<close>

record ClassifyRequest =
  cq_graph :: GraphResponse
  cq_topology :: pydict
  cq_options :: pydict

record ClassifyResult =
  cres_success :: bool
  cres_graph :: Graph
  cres_errors :: "string list"

record ClassifyResponse =
  cr_graph :: GraphResponse

text \<open>
  Lines 295-310: the topology handed to the classifier. \<^verbatim>\<open>known\<close> is a pydantic model,
  which is always true under \<^verbatim>\<open>and\<close>; \<^verbatim>\<open>known.url\<close> is true when it is a non-empty string.
\<close>

definition classify_topology :: "registry \<Rightarrow> pydict \<Rightarrow> TopologyInput" where
  "classify_topology ontologies topology =
     (let topology_payload = dict_copy topology;
          topology_id = dict_get topology_payload ''id'' PNone;
          resolved =
            (case topology_id of
               PStr name \<Rightarrow>
                 if \<not> py_bool (dict_get topology_payload ''url'' PNone)
                    \<and> \<not> py_bool (dict_get topology_payload ''content'' PNone)
                 then
                   (case map_of ontologies name of
                      None \<Rightarrow> topology_payload
                    | Some known \<Rightarrow>
                        (case oi_url known of
                           None \<Rightarrow> topology_payload
                         | Some url \<Rightarrow>
                             if url \<noteq> [] then dict_set ''url'' (PStr url) topology_payload
                             else topology_payload))
                 else topology_payload
             | _ \<Rightarrow> topology_payload)
      in \<lparr>ti_id = dict_get resolved ''id'' PNone,
          ti_url = dict_get resolved ''url'' PNone,
          ti_content = dict_get resolved ''content'' PNone,
          ti_format = dict_get resolved ''format'' PNone\<rparr>)"

text \<open>
  Lines 311-317: the options. The arguments are evaluated in order, so \<^verbatim>\<open>float\<close> is the
  first thing that can raise, and the only one: \<^verbatim>\<open>bool\<close> accepts every value, and
  \<^verbatim>\<open>dict\<close> is applied to a value that is a \<^verbatim>\<open>dict\<close>.
\<close>

definition classify_options :: "runtime \<Rightarrow> pydict \<Rightarrow> exn + ClassifierOptions" where
  "classify_options rt options =
     (case py_float rt (dict_get options ''min_confidence'' (PFloat (Finite (1 / 2)))) of
        Inl exc \<Rightarrow> Inl exc
      | Inr min_confidence \<Rightarrow>
          Inr \<lparr>co_min_confidence = min_confidence,
               co_use_llm = py_bool (dict_get options ''use_llm'' (PBool False)),
               co_metadata =
                 (case dict_get options ''metadata'' PNone of
                    PDict d \<Rightarrow> dict_copy d
                  | _ \<Rightarrow> [])\<rparr>)"

text \<open>
  \<^verbatim>\<open>POST /classify\<close>. The \<^verbatim>\<open>try\<close> block turns a \<^verbatim>\<open>ValueError\<close> or a \<^verbatim>\<open>TypeError\<close> into a 400;
  any other exception leaves the handler as it is.
\<close>

definition classify_graph_endpoint ::
  "registry \<Rightarrow> runtime \<Rightarrow> (Graph \<Rightarrow> TopologyInput \<Rightarrow> ClassifierOptions \<Rightarrow> ClassifyResult) \<Rightarrow>
   ClassifyRequest \<Rightarrow> (exn + ClassifyResponse) \<times> effect list" where
  "classify_graph_endpoint ontologies rt classify_graph_sync body =
     (let graph_input = to_graph (cq_graph body);
          topology = classify_topology ontologies (cq_topology body)
      in
        case classify_options rt (cq_options body) of
          Inl exc \<Rightarrow>
            if caught_by exc [ValueError, TypeError] then
              (Inl (HTTPException 400 (''Invalid classify request: '' @ exn_str exc)), [])
            else (Inl exc, [])
        | Inr options \<Rightarrow>
            (let result = classify_graph_sync graph_input topology options;
                 called = [ClassifyGraphSync graph_input topology options]
             in
               if \<not> cres_success result then
                 (Inl (HTTPException 422
                        (case cres_errors result of
                           [] \<Rightarrow> ''Classification failed''
                         | e # es \<Rightarrow> e)), called)
               else (Inr \<lparr>cr_graph = from_graph (cres_graph result)\<rparr>, called)))"

section \<open>Enhance\<close>

record EnhanceRequest =
  eq_graph :: GraphResponse
  eq_options :: pydict

text \<open>One suggestion of the enhancement service, and its wire form (lines 161-168).\<close>

record Enhancement =
  en_node_id :: string
  en_original_class :: "string option"
  en_original_confidence :: pyfloat
  en_suggested_class :: string
  en_llm_confidence :: pyfloat
  en_reasoning :: string
  en_applied :: bool

record EnhancementResponse =
  enr_node_id :: string
  enr_original_class :: "string option"
  enr_original_confidence :: pyfloat
  enr_suggested_class :: string
  enr_llm_confidence :: pyfloat
  enr_reasoning :: string
  enr_applied :: bool

text \<open>
  The result of the enhancement service. The two counts of its metadata are integers,
  as the response model declares them.
\<close>

record EnhanceResult =
  eres_success :: bool
  eres_graph :: Graph
  eres_enhancements :: "Enhancement list"
  eres_metadata :: "(string \<times> int) list"
  eres_errors :: "string list"

record EnhanceResponse =
  ep_graph :: GraphResponse
  ep_enhancements :: "EnhancementResponse list"
  ep_success :: bool
  ep_errors :: "string list"
  ep_nodes_evaluated :: int
  ep_nodes_enhanced :: int

text \<open>
  The literal \<^verbatim>\<open>0.7\<close> is the binary64 value nearest to seven tenths,
  \<open>3152519739159347 / 2 ^ 52\<close>; \<^verbatim>\<open>0.5\<close> and \<^verbatim>\<open>0.0\<close> are exact.
\<close>

definition float_0_7 :: pyfloat where
  "float_0_7 = Finite (3152519739159347 / 4503599627370496)"

text \<open>Lines 341-351.\<close>

definition enhance_llm_options :: "runtime \<Rightarrow> pydict \<Rightarrow> exn + LLMOptions" where
  "enhance_llm_options rt options =
     (let opts_dict = dict_copy options in
      case py_float rt (dict_get opts_dict ''min_confidence_threshold'' (PFloat float_0_7)) of
        Inl exc \<Rightarrow> Inl exc
      | Inr threshold \<Rightarrow>
          (case py_int rt (dict_get opts_dict ''batch_size'' (PInt 10)) of
             Inl exc \<Rightarrow> Inl exc
           | Inr batch \<Rightarrow>
               Inr \<lparr>lo_backend = dict_get opts_dict ''backend'' (PStr ''transformers''),
                    lo_model =
                      dict_get opts_dict ''model''
                        (PStr ''HuggingFaceTB/SmolLM2-1.7B-Instruct''),
                    lo_base_url =
                      dict_get opts_dict ''base_url'' (PStr ''http://localhost:11434/v1''),
                    lo_min_confidence_threshold = threshold,
                    lo_batch_size = batch,
                    lo_force = py_bool (dict_get opts_dict ''force'' (PBool False))\<rparr>))"

text \<open>
  Lines 354-360: the nodes below the threshold, among those that carry a class. The
  comparison raises for a confidence that is not a number.
\<close>

fun low_confidence :: "Node list \<Rightarrow> pyfloat \<Rightarrow> exn + Node list" where
  "low_confidence [] threshold = Inr []"
| "low_confidence (n # ns) threshold =
     (case py_lt_float (dict_get (n_attrs n) ''class_confidence'' (PFloat (Finite 0)))
             threshold of
        Inl exc \<Rightarrow> Inl exc
      | Inr below \<Rightarrow>
          (case low_confidence ns threshold of
             Inl exc \<Rightarrow> Inl exc
           | Inr rest \<Rightarrow> Inr (if below then n # rest else rest)))"

text \<open>The body of the \<^verbatim>\<open>try\<close> block, lines 338-367: the options and the line it logs.\<close>

definition enhance_request :: "runtime \<Rightarrow> Graph \<Rightarrow> pydict \<Rightarrow> exn + (LLMOptions \<times> effect)" where
  "enhance_request rt graph_input options =
     (case enhance_llm_options rt options of
        Inl exc \<Rightarrow> Inl exc
      | Inr llm_options \<Rightarrow>
          (let nodes_with_class =
                 filter (\<lambda>n. dict_has (n_attrs n) ''class'') (g_nodes graph_input)
           in
             case low_confidence nodes_with_class (lo_min_confidence_threshold llm_options) of
               Inl exc \<Rightarrow> Inl exc
             | Inr low \<Rightarrow>
                 Inr (llm_options,
                      LogEnhanceRequest (length (g_nodes graph_input))
                        (length nodes_with_class) (length low)
                        (lo_min_confidence_threshold llm_options))))"

definition from_enhancement :: "Enhancement \<Rightarrow> EnhancementResponse" where
  "from_enhancement e =
     \<lparr>enr_node_id = en_node_id e,
      enr_original_class = en_original_class e,
      enr_original_confidence = en_original_confidence e,
      enr_suggested_class = en_suggested_class e,
      enr_llm_confidence = en_llm_confidence e,
      enr_reasoning = en_reasoning e,
      enr_applied = en_applied e\<rparr>"

definition metadata_get :: "(string \<times> int) list \<Rightarrow> string \<Rightarrow> int \<Rightarrow> int" where
  "metadata_get d k dflt = (case map_of d k of None \<Rightarrow> dflt | Some v \<Rightarrow> v)"

text \<open>\<^verbatim>\<open>POST /enhance\<close>. After the \<^verbatim>\<open>try\<close> block nothing looks at the success flag.\<close>

definition enhance_graph_endpoint ::
  "runtime \<Rightarrow> (Graph \<Rightarrow> LLMOptions \<Rightarrow> EnhanceResult) \<Rightarrow> EnhanceRequest \<Rightarrow>
   (exn + EnhanceResponse) \<times> effect list" where
  "enhance_graph_endpoint rt enhance_graph_sync body =
     (let graph_input = to_graph (eq_graph body) in
      case enhance_request rt graph_input (eq_options body) of
        Inl exc \<Rightarrow>
          if caught_by exc [ValueError, TypeError] then
            (Inl (HTTPException 400 (''Invalid enhance request: '' @ exn_str exc)), [])
          else (Inl exc, [])
      | Inr (llm_options, logged) \<Rightarrow>
          (let result = enhance_graph_sync graph_input llm_options;
               applied_count = length (filter en_applied (eres_enhancements result));
               enhancements = map from_enhancement (eres_enhancements result)
           in
             (Inr \<lparr>ep_graph = from_graph (eres_graph result),
                   ep_enhancements = enhancements,
                   ep_success = eres_success result,
                   ep_errors = eres_errors result,
                   ep_nodes_evaluated = metadata_get (eres_metadata result) ''nodes_evaluated'' 0,
                   ep_nodes_enhanced = metadata_get (eres_metadata result) ''nodes_enhanced'' 0\<rparr>,
              [logged, EnhanceGraphSync graph_input llm_options,
               LogEnhanceResult (eres_success result) (length (eres_enhancements result))
                 applied_count (eres_errors result)])))"

section \<open>Ontology fetch\<close>

type_synonym bytes = "8 word list"

text \<open>
  The network and the two decoders, which are not part of this repository:
  \<^verbatim>\<open>urlopen(url, timeout=t)\<close> followed by \<^verbatim>\<open>read()\<close>, \<^verbatim>\<open>json.loads\<close>,
  \<^verbatim>\<open>bytes.decode("utf-8", errors="replace")\<close> and \<^verbatim>\<open>yaml.safe_load\<close>. Each returns a value or
  raises an exception.
\<close>

record fetch_io =
  urlopen_read :: "string \<Rightarrow> nat \<Rightarrow> exn + bytes"
  json_loads :: "bytes \<Rightarrow> exn + pyval"
  decode_replace :: "bytes \<Rightarrow> string"
  yaml_safe_load :: "string \<Rightarrow> exn + pyval"

text \<open>\<^verbatim>\<open>GET /ontologies/{ontology_id}\<close>, lines 437-463.\<close>

definition get_ontology ::
  "registry \<Rightarrow> fetch_io \<Rightarrow> string \<Rightarrow> (exn + pyval) \<times> effect list" where
  "get_ontology ontologies io ontology_id =
     (case map_of ontologies ontology_id of
        None \<Rightarrow>
          (Inl (HTTPException 404 (''Ontology '' @ quoted ontology_id @ '' not found'')), [])
      | Some ontology \<Rightarrow>
          (case oi_url ontology of
             None \<Rightarrow>
               (Inl (HTTPException 404
                      (''Ontology '' @ quoted ontology_id @ '' does not define a URL'')), [])
           | Some url \<Rightarrow>
               if url = [] then
                 (Inl (HTTPException 404
                        (''Ontology '' @ quoted ontology_id @ '' does not define a URL'')), [])
               else
                 (let outcome =
                        (case urlopen_read io url 20 of
                           Inl exc \<Rightarrow> Inl exc
                         | Inr payload_raw \<Rightarrow>
                             (case json_loads io payload_raw of
                                Inr payload \<Rightarrow> Inr payload
                              | Inl exc \<Rightarrow>
                                  if caught_by exc [JSONDecodeError] then
                                    yaml_safe_load io (decode_replace io payload_raw)
                                  else Inl exc))
                  in
                    (case outcome of
                       Inr payload \<Rightarrow> Inr payload
                     | Inl exc \<Rightarrow>
                         if caught_by exc [OSError, JSONDecodeError, YAMLError] then
                           Inl (HTTPException 502
                                 (''Failed to fetch ontology '' @ quoted ontology_id @ '': ''
                                  @ exn_str exc))
                         else Inl exc,
                     [UrlOpen url 20]))))"

section \<open>Notions the census properties are stated with\<close>

text \<open>
  What a table built from the returned census entries alone would answer for an
  identifier: the handle of the last entry that carries it.
\<close>

definition entries_lookup :: "DeviceCensusEntry list \<Rightarrow> int \<Rightarrow> string option" where
  "entries_lookup census k =
     (case filter (\<lambda>e. device_id e = k) census of
        [] \<Rightarrow> None
      | e # es \<Rightarrow> device_uid (last (e # es)))"

text \<open>The integer identifier under which a device enters the census, if it does.\<close>

definition census_id :: "runtime \<Rightarrow> Device \<Rightarrow> int option" where
  "census_id rt device =
     (case device_to_census rt device of Inl exc \<Rightarrow> None | Inr row \<Rightarrow> Some (device_id row))"



text \<open>
  A sequence of census calls, each with its scan service and its parameters, run one
  after the other on the shared cache: the outcomes in order, and the cache at the end.
\<close>

type_synonym census_call =
  "(int \<Rightarrow> string option \<Rightarrow> string option \<Rightarrow> ScanResult) \<times> int \<times> string option \<times> string option"

fun census_calls ::
  "runtime \<Rightarrow> census_call list \<Rightarrow> census_cache \<Rightarrow>
   (exn + DeviceCensusEntry list) list \<times> census_cache" where
  "census_calls rt [] cache = ([], cache)"
| "census_calls rt ((scan_network, timeout, client_ip, bbmd_ip) # calls) cache =
     (case discover_census rt scan_network timeout client_ip bbmd_ip cache of
        (outcome, cache', effects) \<Rightarrow>
          (case census_calls rt calls cache' of
             (outcomes, cache'') \<Rightarrow> (outcome # outcomes, cache'')))"

section \<open>Notions the request properties are stated with\<close>

text \<open>The nodes that carry a class, and the test the handler applies to each of them.\<close>

definition nodes_with_class :: "Graph \<Rightarrow> Node list" where
  "nodes_with_class graph = filter (\<lambda>n. dict_has (n_attrs n) ''class'') (g_nodes graph)"

definition below_threshold :: "pyfloat \<Rightarrow> Node \<Rightarrow> bool" where
  "below_threshold threshold n =
     (case py_lt_float (dict_get (n_attrs n) ''class_confidence'' (PFloat (Finite 0)))
             threshold of
        Inl exc \<Rightarrow> False
      | Inr below \<Rightarrow> below)"

text \<open>The options of a request that names none of the six.\<close>

definition default_llm_options :: LLMOptions where
  "default_llm_options =
     \<lparr>lo_backend = PStr ''transformers'',
      lo_model = PStr ''HuggingFaceTB/SmolLM2-1.7B-Instruct'',
      lo_base_url = PStr ''http://localhost:11434/v1'',
      lo_min_confidence_threshold = float_0_7,
      lo_batch_size = 10,
      lo_force = False\<rparr>"

text \<open>The seven fields of a suggestion and of its wire form, side by side.\<close>

definition enhancement_fields ::
  "Enhancement \<Rightarrow> string \<times> string option \<times> pyfloat \<times> string \<times> pyfloat \<times> string \<times> bool" where
  "enhancement_fields e =
     (en_node_id e, en_original_class e, en_original_confidence e, en_suggested_class e,
      en_llm_confidence e, en_reasoning e, en_applied e)"

definition response_fields ::
  "EnhancementResponse \<Rightarrow> string \<times> string option \<times> pyfloat \<times> string \<times> pyfloat \<times> string \<times> bool" where
  "response_fields r =
     (enr_node_id r, enr_original_class r, enr_original_confidence r, enr_suggested_class r,
      enr_llm_confidence r, enr_reasoning r, enr_applied r)"

section \<open>Concrete inputs\<close>

text \<open>
  A runtime for the evaluations below. It reads a string of ASCII digits with an optional
  minus sign, as \<^verbatim>\<open>int\<close> and \<^verbatim>\<open>float\<close> do, and rejects every other string; it prints
  \<^verbatim>\<open>None\<close>, booleans, integers and strings that need no escape.
\<close>

fun digits_value :: "string \<Rightarrow> nat \<Rightarrow> nat option" where
  "digits_value [] acc = Some acc"
| "digits_value (c # cs) acc =
     (if c \<in> set ''0123456789'' then digits_value cs (10 * acc + (of_char c - 48)) else None)"

definition decimal_literal :: "string \<Rightarrow> int option" where
  "decimal_literal s =
     (case s of
        [] \<Rightarrow> None
      | c # cs \<Rightarrow>
          if c = CHR ''-'' then
            (if cs = [] then None else map_option (\<lambda>n. - int n) (digits_value cs 0))
          else map_option int (digits_value (c # cs) 0))"

definition example_runtime :: runtime where
  "example_runtime =
     \<lparr>int_of_str = decimal_literal,
      float_of_str =
        (\<lambda>s. case decimal_literal s of
               None \<Rightarrow> None
             | Some n \<Rightarrow>
                 (case float_of_int n of
                    Inl exc \<Rightarrow> Some (if n < 0 then NegInf else PosInf)
                  | Inr f \<Rightarrow> Some f)),
      repr_of =
        (\<lambda>v. case v of
               PNone \<Rightarrow> ''None''
             | PBool b \<Rightarrow> (if b then ''True'' else ''False'')
             | PInt n \<Rightarrow> str_int n
             | PStr s \<Rightarrow> quoted s
             | _ \<Rightarrow> ''...'')\<rparr>"

text \<open>
  Scan results: one device, two devices with one identifier, one bad device, a list as
  identifier, a fraction as identifier, a failure.
\<close>

definition census_scan_one :: "int \<Rightarrow> string \<Rightarrow> int \<Rightarrow> string option \<Rightarrow> string option \<Rightarrow> ScanResult" where
  "census_scan_one i u timeout client_ip bbmd_ip =
     \<lparr>sr_success = True,
      sr_data = [\<lparr>d_uid = u, d_name = None, d_manufacturer = None, d_points = [],
                  d_protocol_ref = Some \<lparr>pr_address = ''10.0.0.1'', pr_device_id = PInt i\<rparr>\<rparr>],
      sr_errors = []\<rparr>"

definition census_scan_twins :: "int \<Rightarrow> string option \<Rightarrow> string option \<Rightarrow> ScanResult" where
  "census_scan_twins timeout client_ip bbmd_ip =
     \<lparr>sr_success = True,
      sr_data =
        [\<lparr>d_uid = ''A'', d_name = None, d_manufacturer = None, d_points = [],
          d_protocol_ref = Some \<lparr>pr_address = ''10.0.0.1'', pr_device_id = PInt 5\<rparr>\<rparr>,
         \<lparr>d_uid = ''B'', d_name = None, d_manufacturer = None, d_points = [],
          d_protocol_ref = Some \<lparr>pr_address = ''10.0.0.2'', pr_device_id = PStr ''5''\<rparr>\<rparr>],
      sr_errors = []\<rparr>"

definition census_scan_one_bad :: "int \<Rightarrow> string option \<Rightarrow> string option \<Rightarrow> ScanResult" where
  "census_scan_one_bad timeout client_ip bbmd_ip =
     \<lparr>sr_success = True,
      sr_data =
        [\<lparr>d_uid = ''A'', d_name = None, d_manufacturer = None, d_points = [],
          d_protocol_ref = Some \<lparr>pr_address = ''10.0.0.1'', pr_device_id = PInt 5\<rparr>\<rparr>,
         \<lparr>d_uid = ''B'', d_name = None, d_manufacturer = None, d_points = [],
          d_protocol_ref = Some \<lparr>pr_address = ''10.0.0.2'', pr_device_id = PStr ''abc''\<rparr>\<rparr>,
         \<lparr>d_uid = ''C'', d_name = None, d_manufacturer = None, d_points = [],
          d_protocol_ref = Some \<lparr>pr_address = ''10.0.0.3'', pr_device_id = PStr ''7''\<rparr>\<rparr>],
      sr_errors = []\<rparr>"



definition census_scan_failed :: "int \<Rightarrow> string option \<Rightarrow> string option \<Rightarrow> ScanResult" where
  "census_scan_failed timeout client_ip bbmd_ip =
     \<lparr>sr_success = False, sr_data = [], sr_errors = [''who-is timed out'', ''no route'']\<rparr>"

text \<open>
  Requests and services for the classify and enhance evaluations: a classifier that
  accepts every graph, an integer beyond the range of a float, a graph with two classified
  nodes, and an enhancement service that reports failure.
\<close>

definition classify_echo :: "Graph \<Rightarrow> TopologyInput \<Rightarrow> ClassifierOptions \<Rightarrow> ClassifyResult" where
  "classify_echo graph topology options =
     \<lparr>cres_success = True, cres_graph = graph, cres_errors = []\<rparr>"

definition classify_body :: "pydict \<Rightarrow> pydict \<Rightarrow> ClassifyRequest" where
  "classify_body topology options =
     \<lparr>cq_graph = mk_GraphResponse None None None, cq_topology = topology,
      cq_options = options\<rparr>"

definition huge_int :: int where
  "huge_int = 10 ^ 400"

definition classified_graph :: Graph where
  "classified_graph =
     \<lparr>g_nodes =
        [\<lparr>n_id = ''ahu-1'', n_type = ''object'', n_tags = [],
          n_attrs = [(''class'', PStr ''AHU''),
                     (''class_confidence'', PFloat (Finite (6 / 10)))]\<rparr>,
         \<lparr>n_id = ''vav-2'', n_type = ''object'', n_tags = [],
          n_attrs = [(''class'', PStr ''VAV''),
                     (''class_confidence'', PFloat float_0_7)]\<rparr>,
         \<lparr>n_id = ''pt-3'', n_type = ''object'', n_tags = [], n_attrs = []\<rparr>],
      g_edges = [],
      g_meta = to_meta (mk_GraphMetaResponse None None None None None None None None)\<rparr>"

definition enhance_failing :: "Graph \<Rightarrow> LLMOptions \<Rightarrow> EnhanceResult" where
  "enhance_failing graph options =
     \<lparr>eres_success = False,
      eres_graph = graph,
      eres_enhancements =
        [\<lparr>en_node_id = ''ahu-1'', en_original_class = Some ''AHU'',
          en_original_confidence = Finite (6 / 10), en_suggested_class = ''Air_Handling_Unit'',
          en_llm_confidence = Finite (9 / 10), en_reasoning = ''name'', en_applied = False\<rparr>],
      eres_metadata = [(''nodes_evaluated'', 1)],
      eres_errors = [''model unavailable'']\<rparr>"

text \<open>
  A server whose reply is the single byte \<^verbatim>\<open>0xFF\<close>, which is not UTF-8: \<^verbatim>\<open>json.loads\<close>
  raises \<^verbatim>\<open>UnicodeDecodeError\<close> on it, before any parsing.
\<close>

definition undecodable_reply :: fetch_io where
  "undecodable_reply =
     \<lparr>urlopen_read = (\<lambda>url timeout. Inr [0xFF]),
      json_loads =
        (\<lambda>raw. if raw = [0xFF] then
                  Inl (Exn UnicodeDecodeError
                        (quoted ''utf-8'' @ '' codec can'' @ [CHR 0x27]
                         @ ''t decode byte 0xff in position 0: invalid start byte''))
                else Inl (Exn JSONDecodeError ''Expecting value: line 1 column 1 (char 0)'')),
      decode_replace = (\<lambda>raw. ''?''),
      yaml_safe_load = (\<lambda>text. Inr (PStr text))\<rparr>"

section \<open>The codec round trip\<close>

lemma list_copy_id: "list_copy xs = xs"
  by (simp add: list_copy_def)

lemma dict_copy_id: "dict_copy d = d"
  by (simp add: dict_copy_def)

lemma to_node_from_node: "to_node (from_node n) = n"
  by (simp add: to_node_def from_node_def mk_NodeResponse_def list_copy_id dict_copy_id)

lemma to_edge_from_edge: "to_edge (from_edge e) = e"
  by (simp add: to_edge_def from_edge_def mk_EdgeResponse_def dict_copy_id)

lemma to_meta_from_meta: "to_meta (from_meta m) = m"
  by (simp add: to_meta_def from_meta_def mk_GraphMetaResponse_def list_copy_id dict_copy_id)

lemma to_graph_from_graph: "to_graph (from_graph g) = g"
proof -
  have nodes: "map (to_node \<circ> from_node) (g_nodes g) = g_nodes g"
    by (rule map_idI) (simp add: to_node_from_node)
  have edges: "map (to_edge \<circ> from_edge) (g_edges g) = g_edges g"
    by (rule map_idI) (simp add: to_edge_from_edge)
  show ?thesis
    by (simp add: to_graph_def from_graph_def mk_GraphResponse_def nodes edges
        to_meta_from_meta)
qed

text \<open>
  C1. Decoding the encoded form of any graph gives the graph back, field for field
  (so also when \<open>tags\<close>, \<open>attrs\<close> are empty or the metadata is the default one), and wire
  objects whose optional fields are absent decode to the defaults: empty sequences and
  mappings, empty strings, and \<open>True\<close> for \<open>success\<close>.
\<close>

theorem codec_round_trip:
  "to_graph (from_graph g) = g
   \<and> to_node (mk_NodeResponse i t None None)
       = \<lparr>n_id = i, n_type = t, n_tags = [], n_attrs = []\<rparr>
   \<and> to_edge (mk_EdgeResponse s d ty None)
       = \<lparr>e_source = s, e_target = d, e_type = ty, e_attrs = []\<rparr>
   \<and> to_meta (mk_GraphMetaResponse None None None None None None None None)
       = \<lparr>m_created_at = '''', m_source = '''', m_input = [], m_timings = [],
          m_success = True, m_errors = [], m_error_details = [], m_extra = []\<rparr>
   \<and> to_graph (mk_GraphResponse None None None)
       = \<lparr>g_nodes = [], g_edges = [],
          g_meta = \<lparr>m_created_at = '''', m_source = '''', m_input = [], m_timings = [],
                     m_success = True, m_errors = [], m_error_details = [],
                     m_extra = []\<rparr>\<rparr>"
proof -
  have defaults_meta:
    "to_meta (mk_GraphMetaResponse None None None None None None None None)
       = \<lparr>m_created_at = '''', m_source = '''', m_input = [], m_timings = [],
          m_success = True, m_errors = [], m_error_details = [], m_extra = []\<rparr>"
    by (simp add: to_meta_def mk_GraphMetaResponse_def list_copy_id dict_copy_id)
  have defaults_node:
    "to_node (mk_NodeResponse i t None None)
       = \<lparr>n_id = i, n_type = t, n_tags = [], n_attrs = []\<rparr>"
    by (simp add: to_node_def mk_NodeResponse_def list_copy_id dict_copy_id)
  have defaults_edge:
    "to_edge (mk_EdgeResponse s d ty None)
       = \<lparr>e_source = s, e_target = d, e_type = ty, e_attrs = []\<rparr>"
    by (simp add: to_edge_def mk_EdgeResponse_def dict_copy_id)
  have defaults_graph:
    "to_graph (mk_GraphResponse None None None)
       = \<lparr>g_nodes = [], g_edges = [],
          g_meta = \<lparr>m_created_at = '''', m_source = '''', m_input = [], m_timings = [],
                     m_success = True, m_errors = [], m_error_details = [],
                     m_extra = []\<rparr>\<rparr>"
    by (simp add: to_graph_def mk_GraphResponse_def defaults_meta)
  show ?thesis
    using to_graph_from_graph defaults_node defaults_edge defaults_meta defaults_graph
    by simp
qed

section \<open>The census loop\<close>

lemma device_to_census_uid:
  "device_to_census rt d = Inr row \<Longrightarrow> device_uid row = Some (d_uid d)"
  by (auto simp: device_to_census_def split: option.splits if_splits sum.splits)

lemma map_of_rev_last:
  "map_of (rev ps) k =
     (case filter (\<lambda>p. fst p = k) ps of [] \<Rightarrow> None | q # qs \<Rightarrow> Some (snd (last (q # qs))))"
proof (induction ps rule: rev_induct)
  case Nil
  then show ?case by simp
next
  case (snoc p ps)
  then show ?case by (auto split: list.splits)
qed

lemma census_loop_result:
  "census_loop rt ds census uid_map = Inr (census', m') \<Longrightarrow>
     (\<exists>rows. census' = census @ rows
        \<and> map (device_to_census rt) ds = map Inr rows
        \<and> m' = uid_map ++ map_of (rev (zip (map device_id rows) (map d_uid ds))))"
proof (induction ds arbitrary: census uid_map)
  case Nil
  then show ?case by simp
next
  case (Cons d ds)
  from Cons.prems obtain row where row: "device_to_census rt d = Inr row"
    and rest: "census_loop rt ds (census @ [row]) (uid_map(device_id row \<mapsto> d_uid d)) = Inr (census', m')"
    by (auto split: sum.splits)
  from Cons.IH [OF rest] obtain rows where
    r1: "census' = (census @ [row]) @ rows" and
    r2: "map (device_to_census rt) ds = map Inr rows" and
    r3: "m' = uid_map(device_id row \<mapsto> d_uid d) ++ map_of (rev (zip (map device_id rows) (map d_uid ds)))"
    by blast
  have "census' = census @ (row # rows)" using r1 by simp
  moreover have "map (device_to_census rt) (d # ds) = map Inr (row # rows)"
    using row r2 by simp
  moreover have "m' = uid_map ++ map_of (rev (zip (map device_id (row # rows)) (map d_uid (d # ds))))"
    using r3 by (simp add: map_add_upd_left)
  ultimately show ?case by blast
qed

lemma rows_pairs:
  "map (device_to_census rt) ds = map Inr rows \<Longrightarrow>
     zip (map device_id rows) (map d_uid ds) = map (\<lambda>r. (device_id r, the (device_uid r))) rows"
proof (induction ds arbitrary: rows)
  case Nil
  then show ?case by simp
next
  case (Cons d ds)
  then obtain r rs where rows: "rows = r # rs" by (cases rows) auto
  with Cons.prems have r: "device_to_census rt d = Inr r"
    and rs: "map (device_to_census rt) ds = map Inr rs" by auto
  from r have "device_uid r = Some (d_uid d)" by (rule device_to_census_uid)
  with Cons.IH [OF rs] rows show ?case by simp
qed

lemma rows_have_uid:
  "map (device_to_census rt) ds = map Inr rows \<Longrightarrow> r \<in> set rows \<Longrightarrow> \<exists>u. device_uid r = Some u"
proof (induction ds arbitrary: rows)
  case Nil
  then show ?case by simp
next
  case (Cons d ds)
  then obtain r' rs where rows: "rows = r' # rs" by (cases rows) auto
  with Cons.prems have r': "device_to_census rt d = Inr r'"
    and rs: "map (device_to_census rt) ds = map Inr rs" by auto
  show ?case
  proof (cases "r = r'")
    case True
    with r' show ?thesis by (auto dest: device_to_census_uid)
  next
    case False
    with Cons.prems rows have "r \<in> set rs" by simp
    with Cons.IH [OF rs] show ?thesis by blast
  qed
qed

lemma lookup_entries:
  assumes "map (device_to_census rt) ds = map Inr rows"
  shows "map_of (rev (zip (map device_id rows) (map d_uid ds))) k = entries_lookup rows k"
proof -
  let ?f = "\<lambda>r. (device_id r, the (device_uid r))"
  have flt: "filter (\<lambda>p. fst p = k) (map ?f rows) = map ?f (filter (\<lambda>e. device_id e = k) rows)"
    by (simp add: filter_map o_def)
  show ?thesis
  proof (cases "filter (\<lambda>e. device_id e = k) rows")
    case Nil
    then show ?thesis
      by (simp add: rows_pairs [OF assms] map_of_rev_last flt entries_lookup_def)
  next
    case (Cons e es)
    have "last (e # es) \<in> set (filter (\<lambda>e. device_id e = k) rows)"
      unfolding Cons by (rule last_in_set) simp
    then have "last (e # es) \<in> set rows" by simp
    from rows_have_uid [OF assms this] obtain u where u: "device_uid (last (e # es)) = Some u" ..
    have "snd (last (map ?f (e # es))) = the (device_uid (last (e # es)))"
      by (simp add: last_map)
    with u Cons show ?thesis
      by (simp add: rows_pairs [OF assms] map_of_rev_last flt entries_lookup_def del: last.simps)
  qed
qed

lemma census_success:
  assumes "discover_census rt scan t ci bi cache = (Inr census, cache', eff)"
  shows "map (device_to_census rt) (sr_data (scan t ci bi)) = map Inr census"
    and "cache' = map_of (rev (zip (map device_id census) (map d_uid (sr_data (scan t ci bi)))))"
proof -
  from assms obtain m where
    loop: "census_loop rt (sr_data (scan t ci bi)) [] Map.empty = Inr (census, m)"
    and c: "cache' = Map.empty ++ m"
    by (auto simp: discover_census_def Let_def split: if_splits sum.splits prod.splits)
  from census_loop_result [OF loop] c
  show "map (device_to_census rt) (sr_data (scan t ci bi)) = map Inr census"
    and "cache' = map_of (rev (zip (map device_id census) (map d_uid (sr_data (scan t ci bi)))))"
    by auto
qed

lemma devices_pairs:
  "map (device_to_census rt) ds = map Inr rows \<Longrightarrow>
     zip (map device_id rows) (map d_uid ds) = map (\<lambda>d. (the (census_id rt d), d_uid d)) ds
     \<and> list_all (\<lambda>d. \<exists>i. census_id rt d = Some i) ds
     \<and> map device_uid rows = map (\<lambda>d. Some (d_uid d)) ds"
proof (induction ds arbitrary: rows)
  case Nil
  then show ?case by simp
next
  case (Cons d ds)
  then obtain r rs where rows: "rows = r # rs" by (cases rows) auto
  with Cons.prems have r: "device_to_census rt d = Inr r"
    and rs: "map (device_to_census rt) ds = map Inr rs" by auto
  from r have "census_id rt d = Some (device_id r)" by (simp add: census_id_def)
  moreover from r have "device_uid r = Some (d_uid d)" by (rule device_to_census_uid)
  ultimately show ?case using Cons.IH [OF rs] rows by simp
qed

lemma lookup_devices:
  assumes "map (device_to_census rt) ds = map Inr rows"
  shows "map_of (rev (zip (map device_id rows) (map d_uid ds))) k =
     (case filter (\<lambda>d. census_id rt d = Some k) ds of
        [] \<Rightarrow> None
      | d # ds' \<Rightarrow> Some (d_uid (last (d # ds'))))"
proof -
  let ?f = "\<lambda>d. (the (census_id rt d), d_uid d)"
  from devices_pairs [OF assms] have all: "list_all (\<lambda>d. \<exists>i. census_id rt d = Some i) ds"
    and zip: "zip (map device_id rows) (map d_uid ds) = map ?f ds" by simp_all
  have "filter (\<lambda>d. the (census_id rt d) = k) ds = filter (\<lambda>d. census_id rt d = Some k) ds"
    using all by (induction ds) auto
  then have flt: "filter (\<lambda>p. fst p = k) (map ?f ds) = map ?f (filter (\<lambda>d. census_id rt d = Some k) ds)"
    by (simp add: filter_map o_def)
  show ?thesis
  proof (cases "filter (\<lambda>d. census_id rt d = Some k) ds")
    case Nil
    then show ?thesis unfolding zip map_of_rev_last flt by simp
  next
    case (Cons d ds')
    have "snd (last (map ?f (d # ds'))) = d_uid (last (d # ds'))"
      by (subst last_map) simp_all
    then show ?thesis unfolding zip map_of_rev_last flt Cons by simp
  qed
qed

lemma census_failure_keeps_cache:
  "discover_census rt scan t ci bi cache = (Inl exc, cache', eff) \<Longrightarrow>
     cache' = cache \<and> eff = [LogDiscoveryStart t, ScanNetwork t ci bi]"
  by (auto simp: discover_census_def Let_def split: if_splits sum.splits prod.splits)

lemma failed_census_calls_keep_cache:
  "list_all isl (fst (census_calls rt calls cache)) \<Longrightarrow> snd (census_calls rt calls cache) = cache"
proof (induction calls arbitrary: cache)
  case Nil
  then show ?case by simp
next
  case (Cons call calls)
  obtain scan t ci bi where call: "call = (scan, t, ci, bi)" by (cases call) auto
  obtain outcome cache' eff where
    run: "discover_census rt scan t ci bi cache = (outcome, cache', eff)"
    by (cases "discover_census rt scan t ci bi cache") auto
  obtain outcomes cache'' where rest: "census_calls rt calls cache' = (outcomes, cache'')"
    by (cases "census_calls rt calls cache'") auto
  from Cons.prems call run rest have failed: "isl outcome" and more: "list_all isl outcomes"
    by simp_all
  from failed run have "cache' = cache"
    by (cases outcome) (auto dest: census_failure_keeps_cache)
  moreover from Cons.IH [of cache'] more rest have "cache'' = cache'" by simp
  ultimately show ?case using call run rest by simp
qed




lemma census_scan_one_run:
  "discover_census rt (census_scan_one i u) t ci bi cache =
     (Inr [\<lparr>device_address = ''10.0.0.1'', device_id = i, device_name = None, vendor = None,
            object_count = 0, device_uid = Some u\<rparr>],
      Map.empty ++ (Map.empty(i \<mapsto> u)),
      [LogDiscoveryStart t, ScanNetwork t ci bi, LogDiscoveryComplete 1])"
  by (simp add: discover_census_def census_scan_one_def device_to_census_def)

lemma census_scan_twins_run:
  "discover_census example_runtime census_scan_twins 60 None None initial_cache =
     (Inr [\<lparr>device_address = ''10.0.0.1'', device_id = 5, device_name = None, vendor = None,
            object_count = 0, device_uid = Some ''A''\<rparr>,
           \<lparr>device_address = ''10.0.0.2'', device_id = 5, device_name = None, vendor = None,
            object_count = 0, device_uid = Some ''B''\<rparr>],
      Map.empty ++ (Map.empty(5 \<mapsto> ''A'', 5 \<mapsto> ''B'')),
      [LogDiscoveryStart 60, ScanNetwork 60 None None, LogDiscoveryComplete 2])"
  by (simp add: discover_census_def census_scan_twins_def device_to_census_def
      example_runtime_def decimal_literal_def)

lemma census_scan_failed_run:
  "discover_census rt census_scan_failed 60 None None cache =
     (Inl (HTTPException 500 ''Network scan failed: who-is timed out; no route''), cache,
      [LogDiscoveryStart 60, ScanNetwork 60 None None])"
  by (simp add: discover_census_def census_scan_failed_def)

section \<open>The census cache is replaced as a whole\<close>

text \<open>
  C2. After a census that succeeded, a lookup answers from the entries of that census
  alone, whatever the cache held before: for two successful censuses in a row, the cache
  after the first answers from the first list of entries and the cache after the second
  from the second list only. With entries \<open>5 \<mapsto> X\<close> and then only \<open>7 \<mapsto> Y\<close>: lookup of 5
  gives \<open>X\<close> after the first census, and after the second lookup of 5 finds nothing and
  lookup of 7 gives \<open>Y\<close>.
\<close>

theorem census_replaces_cache:
  assumes "discover_census rt scan1 t1 ci1 bi1 cache0 = (Inr census1, cache1, eff1)"
      and "discover_census rt scan2 t2 ci2 bi2 cache1 = (Inr census2, cache2, eff2)"
  shows "cache_lookup cache1 k = entries_lookup census1 k
       \<and> cache_lookup cache2 k = entries_lookup census2 k"
proof -
  have "cache1 k = entries_lookup census1 k"
    unfolding census_success(2) [OF assms(1)]
    by (rule lookup_entries) (rule census_success(1) [OF assms(1)])
  moreover have "cache2 k = entries_lookup census2 k"
    unfolding census_success(2) [OF assms(2)]
    by (rule lookup_entries) (rule census_success(1) [OF assms(2)])
  ultimately show ?thesis by (simp add: cache_lookup_def)
qed

theorem census_replaces_cache_witness:
  "discover_census example_runtime (census_scan_one 5 ''X'') 60 None None initial_cache
     = (Inr [\<lparr>device_address = ''10.0.0.1'', device_id = 5, device_name = None,
              vendor = None, object_count = 0, device_uid = Some ''X''\<rparr>],
        Map.empty ++ (Map.empty(5 \<mapsto> ''X'')),
        [LogDiscoveryStart 60, ScanNetwork 60 None None, LogDiscoveryComplete 1])
   \<and> discover_census example_runtime (census_scan_one 7 ''Y'') 60 None None
       (Map.empty ++ (Map.empty(5 \<mapsto> ''X'')))
     = (Inr [\<lparr>device_address = ''10.0.0.1'', device_id = 7, device_name = None,
              vendor = None, object_count = 0, device_uid = Some ''Y''\<rparr>],
        Map.empty ++ (Map.empty(7 \<mapsto> ''Y'')),
        [LogDiscoveryStart 60, ScanNetwork 60 None None, LogDiscoveryComplete 1])
   \<and> cache_lookup (Map.empty ++ (Map.empty(5 \<mapsto> ''X''))) 5 = Some ''X''
   \<and> cache_lookup (Map.empty ++ (Map.empty(7 \<mapsto> ''Y''))) 5 = None
   \<and> cache_lookup (Map.empty ++ (Map.empty(7 \<mapsto> ''Y''))) 7 = Some ''Y''"
proof -
  let ?e1 = "\<lparr>device_address = ''10.0.0.1'', device_id = 5, device_name = None, vendor = None,
            object_count = 0, device_uid = Some ''X''\<rparr>"
  let ?e2 = "\<lparr>device_address = ''10.0.0.1'', device_id = 7, device_name = None, vendor = None,
            object_count = 0, device_uid = Some ''Y''\<rparr>"
  let ?c1 = "Map.empty ++ (Map.empty(5 \<mapsto> ''X'')) :: census_cache"
  let ?c2 = "Map.empty ++ (Map.empty(7 \<mapsto> ''Y'')) :: census_cache"
  let ?eff = "[LogDiscoveryStart 60, ScanNetwork 60 None None, LogDiscoveryComplete 1]"
  have r1: "discover_census example_runtime (census_scan_one 5 ''X'') 60 None None initial_cache
        = (Inr [?e1], ?c1, ?eff)"
    by (rule census_scan_one_run)
  have r2: "discover_census example_runtime (census_scan_one 7 ''Y'') 60 None None ?c1
        = (Inr [?e2], ?c2, ?eff)"
    by (rule census_scan_one_run)
  have l1: "cache_lookup ?c1 5 = Some ''X''"
    using census_replaces_cache [OF r1 r2, of 5] by (simp add: entries_lookup_def)
  have l2: "cache_lookup ?c2 5 = None"
    using census_replaces_cache [OF r1 r2, of 5] by (simp add: entries_lookup_def)
  have l3: "cache_lookup ?c2 7 = Some ''Y''"
    using census_replaces_cache [OF r1 r2, of 7] by (simp add: entries_lookup_def)
  from r1 r2 l1 l2 l3 show ?thesis by blast
qed

section \<open>One bad device fails the census\<close>




section \<open>Object scan before any census\<close>

text \<open>
  C4. Start from the cache of a fresh process and let any number of census calls run,
  none of which succeeds. Then \<^verbatim>\<open>GET /discover/{device_id}/objects\<close> raises 404 for every
  device id, with a detail telling the caller to run \<^verbatim>\<open>GET /discover\<close> first, and it has no
  effect: the object-discovery service is not called.
\<close>

theorem objects_before_census_not_found:
  assumes "list_all isl (fst (census_calls rt calls initial_cache))"
  shows "discover_device_objects discover_objects objects_result_to_graph
           (snd (census_calls rt calls initial_cache)) dev_id client_ip bbmd_ip rpm_batch_size
         = (Inl (HTTPException 404
                  (''Device '' @ str_int dev_id
                   @ '' not found in last census. Run GET /discover first.'')), [])"
  unfolding failed_census_calls_keep_cache [OF assms]
  by (simp add: discover_device_objects_def cache_lookup_def initial_cache_def)

theorem objects_before_census_not_found_witness:
  "census_calls example_runtime
       [(census_scan_failed, 60, None, None), (census_scan_one_bad, 30, None, None)]
       initial_cache
     = ([Inl (HTTPException 500 ''Network scan failed: who-is timed out; no route''),
         Inl (Exn ValueError
               (''Device B has non-integer protocol_ref.device_id='' @ quoted ''abc''))],
        initial_cache)
   \<and> discover_device_objects
        (\<lambda>uid client_ip bbmd_ip n. \<lparr>or_success = True, or_data = (), or_errors = []\<rparr>)
        (\<lambda>result. to_graph (mk_GraphResponse None None None))
        initial_cache 5 None None 10
       = (Inl (HTTPException 404 ''Device 5 not found in last census. Run GET /discover first.''),
          [])"
proof -
  let ?calls = "[(census_scan_failed, 60, None, None), (census_scan_one_bad, 30, None, None)]"
  have bad: "discover_census example_runtime census_scan_one_bad 30 None None initial_cache
     = (Inl (Exn ValueError
               (''Device B has non-integer protocol_ref.device_id='' @ quoted ''abc'')),
        initial_cache, [LogDiscoveryStart 30, ScanNetwork 30 None None])"
    by (simp add: discover_census_def census_scan_one_bad_def device_to_census_def
        example_runtime_def decimal_literal_def)
  have run: "census_calls example_runtime ?calls initial_cache
     = ([Inl (HTTPException 500 ''Network scan failed: who-is timed out; no route''),
         Inl (Exn ValueError
               (''Device B has non-integer protocol_ref.device_id='' @ quoted ''abc''))],
        initial_cache)"
    by (simp add: census_scan_failed_run bad)
  then have failed: "list_all isl (fst (census_calls example_runtime ?calls initial_cache))"
    by simp
  have five: "str_int 5 = ''5''"
    by (simp add: str_int_def str_nat.simps)
  from objects_before_census_not_found [OF failed,
      of "\<lambda>uid client_ip bbmd_ip n. \<lparr>or_success = True, or_data = (), or_errors = []\<rparr>"
         "\<lambda>result. to_graph (mk_GraphResponse None None None)" 5 None None 10]
  have "discover_device_objects
        (\<lambda>uid client_ip bbmd_ip n. \<lparr>or_success = True, or_data = (), or_errors = []\<rparr>)
        (\<lambda>result. to_graph (mk_GraphResponse None None None))
        initial_cache 5 None None 10
       = (Inl (HTTPException 404 ''Device 5 not found in last census. Run GET /discover first.''),
          [])"
    unfolding run five by simp
  with run show ?thesis by blast
qed

section \<open>Devices that share an identifier\<close>

text \<open>
  C10. A successful census returns one entry per device of the scan, in scan order, also
  when devices share an integer identifier; the cache then maps an identifier to the
  handle of the last device of the scan that carries it.
\<close>

theorem census_duplicate_ids:
  assumes "discover_census rt scan t ci bi cache = (Inr census, cache', eff)"
  shows "map (device_to_census rt) (sr_data (scan t ci bi)) = map Inr census
       \<and> length census = length (sr_data (scan t ci bi))
       \<and> map device_uid census = map (\<lambda>d. Some (d_uid d)) (sr_data (scan t ci bi))
       \<and> cache_lookup cache' k =
           (case filter (\<lambda>d. census_id rt d = Some k) (sr_data (scan t ci bi)) of
              [] \<Rightarrow> None
            | d # ds \<Rightarrow> Some (d_uid (last (d # ds))))"
proof -
  note rows = census_success(1) [OF assms]
  have len: "length census = length (sr_data (scan t ci bi))"
    using arg_cong [OF rows, of length] by simp
  have uids: "map device_uid census = map (\<lambda>d. Some (d_uid d)) (sr_data (scan t ci bi))"
    using devices_pairs [OF rows] by simp
  have "cache' k =
           (case filter (\<lambda>d. census_id rt d = Some k) (sr_data (scan t ci bi)) of
              [] \<Rightarrow> None
            | d # ds \<Rightarrow> Some (d_uid (last (d # ds))))"
    unfolding census_success(2) [OF assms] by (rule lookup_devices) (rule rows)
  with rows len uids show ?thesis by (simp add: cache_lookup_def)
qed

theorem census_duplicate_ids_witness:
  "discover_census example_runtime census_scan_twins 60 None None initial_cache =
     (Inr [\<lparr>device_address = ''10.0.0.1'', device_id = 5, device_name = None, vendor = None,
            object_count = 0, device_uid = Some ''A''\<rparr>,
           \<lparr>device_address = ''10.0.0.2'', device_id = 5, device_name = None, vendor = None,
            object_count = 0, device_uid = Some ''B''\<rparr>],
      Map.empty ++ (Map.empty(5 \<mapsto> ''A'', 5 \<mapsto> ''B'')),
      [LogDiscoveryStart 60, ScanNetwork 60 None None, LogDiscoveryComplete 2])
   \<and> cache_lookup (Map.empty ++ (Map.empty(5 \<mapsto> ''A'', 5 \<mapsto> ''B''))) 5 = Some ''B''"
proof -
  have ids: "filter (\<lambda>d. census_id example_runtime d = Some 5) (sr_data (census_scan_twins 60 None None))
     = sr_data (census_scan_twins 60 None None)"
    by (simp add: census_scan_twins_def census_id_def device_to_census_def
      example_runtime_def decimal_literal_def)
  have "cache_lookup (Map.empty ++ (Map.empty(5 \<mapsto> ''A'', 5 \<mapsto> ''B''))) 5 = Some ''B''"
    using census_duplicate_ids [OF census_scan_twins_run, of 5] unfolding ids
    by (simp add: census_scan_twins_def)
  with census_scan_twins_run show ?thesis by blast
qed

section \<open>Classify: the topology reference\<close>

lemma dict_get_dict_set: "dict_get (dict_set k v d) k dflt = v"
  by (induction d) (auto simp: dict_get_def)

lemma classify_endpoint_effects:
  "snd (classify_graph_endpoint ontologies rt classify_graph_sync body) =
     (case classify_options rt (cq_options body) of
        Inl exc \<Rightarrow> []
      | Inr options \<Rightarrow>
          [ClassifyGraphSync (to_graph (cq_graph body))
             (classify_topology ontologies (cq_topology body)) options])"
  by (simp add: classify_graph_endpoint_def Let_def split: sum.splits)

lemma classify_topology_registry:
  assumes "map_of topology ''id'' = Some (PStr name)"
      and "\<not> py_bool (dict_get topology ''url'' PNone)"
      and "\<not> py_bool (dict_get topology ''content'' PNone)"
      and "map_of ontologies name = Some known"
      and "oi_url known = Some url" and "url \<noteq> []"
  shows "ti_url (classify_topology ontologies topology) = PStr url"
proof -
  from assms(1) have "dict_get topology ''id'' PNone = PStr name"
    by (simp add: dict_get_def)
  with assms(2-) show ?thesis
    by (simp add: classify_topology_def dict_copy_id Let_def dict_get_dict_set)
qed

lemma classify_topology_explicit:
  assumes "py_bool (dict_get topology ''url'' PNone)"
  shows "ti_url (classify_topology ontologies topology) = dict_get topology ''url'' PNone"
  using assms
  by (simp add: classify_topology_def dict_copy_id Let_def split: pyval.splits)

text \<open>
  C5. The classifier is called with the topology built by the handler. In that topology
  the url is the registry's url when the reference has a string id that the registry
  knows with an url and carries neither an \<^verbatim>\<open>url\<close> nor a \<^verbatim>\<open>content\<close> key; and the url is
  the caller's, untouched, when the reference carries an url (a non-empty string),
  whatever its id and whatever the registry holds.
\<close>

theorem classify_topology_resolution:
  "snd (classify_graph_endpoint ontologies rt classify_graph_sync body) =
     (case classify_options rt (cq_options body) of
        Inl exc \<Rightarrow> []
      | Inr options \<Rightarrow>
          [ClassifyGraphSync (to_graph (cq_graph body))
             (classify_topology ontologies (cq_topology body)) options])
   \<and> (map_of topology ''id'' = Some (PStr name)
        \<and> map_of topology ''url'' = None \<and> map_of topology ''content'' = None
        \<and> map_of ontologies name = Some known \<and> oi_url known = Some url \<and> url \<noteq> []
      \<longrightarrow> ti_url (classify_topology ontologies topology) = PStr url)
   \<and> (map_of topology ''url'' = Some (PStr given) \<and> given \<noteq> []
      \<longrightarrow> ti_url (classify_topology ontologies topology) = PStr given)"
proof -
  have registry: "ti_url (classify_topology ontologies topology) = PStr url"
    if "map_of topology ''id'' = Some (PStr name)
        \<and> map_of topology ''url'' = None \<and> map_of topology ''content'' = None
        \<and> map_of ontologies name = Some known \<and> oi_url known = Some url \<and> url \<noteq> []"
    using that classify_topology_registry [of topology name ontologies known url]
    by (simp add: dict_get_def)
  have explicit: "ti_url (classify_topology ontologies topology) = PStr given"
    if "map_of topology ''url'' = Some (PStr given) \<and> given \<noteq> []"
  proof -
    from that have "dict_get topology ''url'' PNone = PStr given"
      by (simp add: dict_get_def)
    moreover from this that have "py_bool (dict_get topology ''url'' PNone)" by simp
    ultimately show ?thesis by (simp add: classify_topology_explicit)
  qed
  from classify_endpoint_effects registry explicit show ?thesis by blast
qed

theorem classify_topology_resolution_witness:
  "ti_url (classify_topology ONTOLOGIES [(''id'', PStr ''brick_v1.4.4'')])
     = PStr ''https://brickschema.org/schema/1.4.4/Brick.jsonld''
   \<and> ti_url (classify_topology ONTOLOGIES
               [(''id'', PStr ''brick_v1.4.4''), (''url'', PStr ''http://example.org/o.ttl'')])
     = PStr ''http://example.org/o.ttl''
   \<and> snd (classify_graph_endpoint ONTOLOGIES example_runtime classify_echo
            (classify_body [(''id'', PStr ''brick_v1.4.4'')] []))
     = [ClassifyGraphSync (to_graph (mk_GraphResponse None None None))
          (classify_topology ONTOLOGIES [(''id'', PStr ''brick_v1.4.4'')])
          \<lparr>co_min_confidence = Finite (1 / 2), co_use_llm = False, co_metadata = []\<rparr>]"
proof -
  let ?known = "\<lparr>oi_id = ''brick_v1.4.4'', oi_name = ''Brick'', oi_version = Some ''1.4.4'',
        oi_url = Some ''https://brickschema.org/schema/1.4.4/Brick.jsonld''\<rparr>"
  let ?short = "[(''id'', PStr ''brick_v1.4.4'')]"
  let ?full = "[(''id'', PStr ''brick_v1.4.4''), (''url'', PStr ''http://example.org/o.ttl'')]"
  note inst = classify_topology_resolution [where ontologies = ONTOLOGIES
      and rt = example_runtime and classify_graph_sync = classify_echo
      and body = "classify_body ?short []"]
  have a: "ti_url (classify_topology ONTOLOGIES ?short)
     = PStr ''https://brickschema.org/schema/1.4.4/Brick.jsonld''"
    using inst [where topology = ?short and name = "''brick_v1.4.4''" and known = ?known
        and url = "''https://brickschema.org/schema/1.4.4/Brick.jsonld''"]
    by (simp add: ONTOLOGIES_def)
  have b: "ti_url (classify_topology ONTOLOGIES ?full) = PStr ''http://example.org/o.ttl''"
    using inst [where topology = ?full and given = "''http://example.org/o.ttl''"]
    by simp
  have opts: "classify_options example_runtime []
       = Inr \<lparr>co_min_confidence = Finite (1 / 2), co_use_llm = False, co_metadata = []\<rparr>"
    by (simp add: classify_options_def dict_get_def)
  have c: "snd (classify_graph_endpoint ONTOLOGIES example_runtime classify_echo
            (classify_body ?short []))
     = [ClassifyGraphSync (to_graph (mk_GraphResponse None None None))
          (classify_topology ONTOLOGIES ?short)
          \<lparr>co_min_confidence = Finite (1 / 2), co_use_llm = False, co_metadata = []\<rparr>]"
    using inst [where topology = ?short] by (simp add: opts classify_body_def)
  from a b c show ?thesis by blast
qed

text \<open>
  The guard of line 299 tests the truth of \<^verbatim>\<open>url\<close> and \<^verbatim>\<open>content\<close>, so an \<^verbatim>\<open>url\<close> key
  that holds the empty string is treated as a reference without url: the registry's url
  is filled in.
\<close>

lemma classify_empty_url_resolved:
  "classify_topology ONTOLOGIES [(''id'', PStr ''brick_v1.4.4''), (''url'', PStr '''')]
       = \<lparr>ti_id = PStr ''brick_v1.4.4'',
          ti_url = PStr ''https://brickschema.org/schema/1.4.4/Brick.jsonld'',
          ti_content = PNone, ti_format = PNone\<rparr>"
  by (simp add: classify_topology_def ONTOLOGIES_def dict_get_def dict_copy_id)

section \<open>Classify: the options\<close>

text \<open>
  Omitted options take the defaults 0.5, false and the empty mapping; a metadata value
  that is not a mapping gives the empty mapping; a \<^verbatim>\<open>ValueError\<close> or \<^verbatim>\<open>TypeError\<close> of the
  coercion becomes a 400 whose detail carries the message of the exception.
\<close>

lemma classify_options_cases:
  "(map_of options ''min_confidence'' = None \<and> classify_options rt options = Inr co
      \<longrightarrow> co_min_confidence co = Finite (1 / 2))
   \<and> (map_of options ''use_llm'' = None \<and> classify_options rt options = Inr co
      \<longrightarrow> co_use_llm co = False)
   \<and> (map_of options ''metadata'' = None \<and> classify_options rt options = Inr co
      \<longrightarrow> co_metadata co = [])
   \<and> (map_of options ''metadata'' = Some v \<and> (\<forall>d. v \<noteq> PDict d)
        \<and> classify_options rt options = Inr co
      \<longrightarrow> co_metadata co = [])
   \<and> (classify_options rt options = Inl exc \<and> caught_by exc [ValueError, TypeError]
      \<longrightarrow> classify_graph_endpoint ontologies rt classify_graph_sync
            \<lparr>cq_graph = g, cq_topology = topology, cq_options = options\<rparr>
          = (Inl (HTTPException 400 (''Invalid classify request: '' @ exn_str exc)), []))"
  by (auto simp: classify_options_def dict_get_def classify_graph_endpoint_def
      split: sum.splits pyval.splits)

lemma huge_int_overflows: "2 ^ 1024 - 2 ^ 970 \<le> \<bar>huge_int\<bar>"
  unfolding huge_int_def by simp

lemma float_of_int_overflow:
  "2 ^ 1024 - 2 ^ 970 \<le> \<bar>n\<bar> \<Longrightarrow>
     float_of_int n = Inl (Exn OverflowError ''int too large to convert to float'')"
  by (simp add: float_of_int_def)

text \<open>
  C6. A coercion failure on an option should give a 400. For \<^verbatim>\<open>min_confidence\<close> equal to
  the integer \<open>10 ^ 400\<close> the coercion \<^verbatim>\<open>float\<close> raises \<^verbatim>\<open>OverflowError\<close>, which the
  \<^verbatim>\<open>except (ValueError, TypeError)\<close> clause does not catch: the handler ends with that
  exception and not with a 400, and the classifier is not called.
\<close>

theorem classify_overflow_escapes:
  "classify_graph_endpoint ONTOLOGIES example_runtime classify_echo
     (classify_body [(''id'', PStr ''brick_v1.4.4'')] [(''min_confidence'', PInt (10 ^ 400))])
   = (Inl (Exn OverflowError ''int too large to convert to float''), [])"
proof -
  have "classify_options example_runtime [(''min_confidence'', PInt huge_int)]
      = Inl (Exn OverflowError ''int too large to convert to float'')"
    by (simp add: classify_options_def dict_get_def float_of_int_overflow [OF huge_int_overflows])
  then have "classify_graph_endpoint ONTOLOGIES example_runtime classify_echo
     (classify_body [(''id'', PStr ''brick_v1.4.4'')] [(''min_confidence'', PInt huge_int)])
   = (Inl (Exn OverflowError ''int too large to convert to float''), [])"
    by (simp add: classify_graph_endpoint_def classify_body_def)
  then show ?thesis unfolding huge_int_def .
qed

section \<open>Enhance: option defaults\<close>

lemma low_confidence_filter:
  "low_confidence ns threshold = Inr low \<Longrightarrow> low = filter (below_threshold threshold) ns"
  by (induction ns arbitrary: low) (auto simp: below_threshold_def split: sum.splits)

lemma enhance_llm_options_fields:
  assumes "enhance_llm_options rt options = Inr llm"
  shows "map_of options ''backend'' = None \<longrightarrow> lo_backend llm = PStr ''transformers''"
    and "map_of options ''model'' = None
           \<longrightarrow> lo_model llm = PStr ''HuggingFaceTB/SmolLM2-1.7B-Instruct''"
    and "map_of options ''base_url'' = None
           \<longrightarrow> lo_base_url llm = PStr ''http://localhost:11434/v1''"
    and "map_of options ''min_confidence_threshold'' = None
           \<longrightarrow> lo_min_confidence_threshold llm = float_0_7"
    and "map_of options ''batch_size'' = None \<longrightarrow> lo_batch_size llm = 10"
    and "map_of options ''force'' = None \<longrightarrow> lo_force llm = False"
  using assms
  by (auto simp: enhance_llm_options_def dict_copy_id dict_get_def split: sum.splits)

lemma enhance_llm_options_all_omitted:
  assumes "map_of options ''backend'' = None" "map_of options ''model'' = None"
    "map_of options ''base_url'' = None" "map_of options ''min_confidence_threshold'' = None"
    "map_of options ''batch_size'' = None" "map_of options ''force'' = None"
  shows "enhance_llm_options rt options = Inr default_llm_options"
  using assms
  by (simp add: enhance_llm_options_def dict_copy_id dict_get_def default_llm_options_def)

lemma enhance_request_logged:
  assumes "enhance_request rt graph options = Inr (llm, logged)"
  shows "enhance_llm_options rt options = Inr llm"
    and "logged = LogEnhanceRequest (length (g_nodes graph)) (length (nodes_with_class graph))
           (length (filter (below_threshold (lo_min_confidence_threshold llm))
                      (nodes_with_class graph)))
           (lo_min_confidence_threshold llm)"
  using assms
  by (auto simp: enhance_request_def nodes_with_class_def Let_def
      split: sum.splits dest: low_confidence_filter)

lemma enhance_endpoint_success:
  assumes "enhance_request rt (to_graph (eq_graph body)) (eq_options body) = Inr (llm, logged)"
  shows "enhance_graph_endpoint rt enhance_graph_sync body =
     (let result = enhance_graph_sync (to_graph (eq_graph body)) llm in
      (Inr \<lparr>ep_graph = from_graph (eres_graph result),
            ep_enhancements = map from_enhancement (eres_enhancements result),
            ep_success = eres_success result,
            ep_errors = eres_errors result,
            ep_nodes_evaluated = metadata_get (eres_metadata result) ''nodes_evaluated'' 0,
            ep_nodes_enhanced = metadata_get (eres_metadata result) ''nodes_enhanced'' 0\<rparr>,
       [logged, EnhanceGraphSync (to_graph (eq_graph body)) llm,
        LogEnhanceResult (eres_success result) (length (eres_enhancements result))
          (length (filter en_applied (eres_enhancements result))) (eres_errors result)]))"
  using assms by (simp add: enhance_graph_endpoint_def Let_def)

text \<open>
  C7. When the request is accepted, the handler logs its counts and then calls the
  enhancement service with the options it built, and every option the request omits has
  its default there: backend \<^verbatim>\<open>transformers\<close>, model \<^verbatim>\<open>HuggingFaceTB/SmolLM2-1.7B-Instruct\<close>,
  base url \<^verbatim>\<open>http://localhost:11434/v1\<close>, threshold 0.7, batch size 10, force false. With
  the threshold omitted, the logged count of low-confidence nodes is the number of
  classified nodes whose confidence is below 0.7, and 0.7 is the threshold logged. For a
  request that omits all six, building the options never raises and gives exactly the
  defaults.
\<close>

theorem enhance_defaults:
  "(enhance_request rt (to_graph (eq_graph body)) (eq_options body) = Inr (llm, logged) \<longrightarrow>
       take 2 (snd (enhance_graph_endpoint rt enhance_graph_sync body))
         = [logged, EnhanceGraphSync (to_graph (eq_graph body)) llm]
     \<and> (map_of (eq_options body) ''backend'' = None
          \<longrightarrow> lo_backend llm = PStr ''transformers'')
     \<and> (map_of (eq_options body) ''model'' = None
          \<longrightarrow> lo_model llm = PStr ''HuggingFaceTB/SmolLM2-1.7B-Instruct'')
     \<and> (map_of (eq_options body) ''base_url'' = None
          \<longrightarrow> lo_base_url llm = PStr ''http://localhost:11434/v1'')
     \<and> (map_of (eq_options body) ''min_confidence_threshold'' = None
          \<longrightarrow> lo_min_confidence_threshold llm = float_0_7
            \<and> logged = LogEnhanceRequest (length (g_nodes (to_graph (eq_graph body))))
                         (length (nodes_with_class (to_graph (eq_graph body))))
                         (length (filter (below_threshold float_0_7)
                                    (nodes_with_class (to_graph (eq_graph body)))))
                         float_0_7)
     \<and> (map_of (eq_options body) ''batch_size'' = None \<longrightarrow> lo_batch_size llm = 10)
     \<and> (map_of (eq_options body) ''force'' = None \<longrightarrow> lo_force llm = False))
   \<and> (map_of (eq_options body) ''backend'' = None
        \<and> map_of (eq_options body) ''model'' = None
        \<and> map_of (eq_options body) ''base_url'' = None
        \<and> map_of (eq_options body) ''min_confidence_threshold'' = None
        \<and> map_of (eq_options body) ''batch_size'' = None
        \<and> map_of (eq_options body) ''force'' = None
      \<longrightarrow> enhance_llm_options rt (eq_options body) = Inr default_llm_options)"
proof -
  let ?graph = "to_graph (eq_graph body)" and ?options = "eq_options body"
  have delegated: "take 2 (snd (enhance_graph_endpoint rt enhance_graph_sync body))
         = [logged, EnhanceGraphSync ?graph llm]"
    if req: "enhance_request rt ?graph ?options = Inr (llm, logged)"
    unfolding enhance_endpoint_success [OF req] by (simp add: Let_def)
  have threshold: "lo_min_confidence_threshold llm = float_0_7
            \<and> logged = LogEnhanceRequest (length (g_nodes ?graph))
                         (length (nodes_with_class ?graph))
                         (length (filter (below_threshold float_0_7) (nodes_with_class ?graph)))
                         float_0_7"
    if req: "enhance_request rt ?graph ?options = Inr (llm, logged)"
      and omitted: "map_of ?options ''min_confidence_threshold'' = None"
  proof -
    from enhance_llm_options_fields(4) [OF enhance_request_logged(1) [OF req]] omitted
    have thr: "lo_min_confidence_threshold llm = float_0_7" by simp
    with enhance_request_logged(2) [OF req] show ?thesis by simp
  qed
  have fields: "(map_of ?options ''backend'' = None \<longrightarrow> lo_backend llm = PStr ''transformers'')
     \<and> (map_of ?options ''model'' = None
          \<longrightarrow> lo_model llm = PStr ''HuggingFaceTB/SmolLM2-1.7B-Instruct'')
     \<and> (map_of ?options ''base_url'' = None
          \<longrightarrow> lo_base_url llm = PStr ''http://localhost:11434/v1'')
     \<and> (map_of ?options ''batch_size'' = None \<longrightarrow> lo_batch_size llm = 10)
     \<and> (map_of ?options ''force'' = None \<longrightarrow> lo_force llm = False)"
    if req: "enhance_request rt ?graph ?options = Inr (llm, logged)"
    using enhance_llm_options_fields [OF enhance_request_logged(1) [OF req]] by simp
  have omitted: "enhance_llm_options rt ?options = Inr default_llm_options"
    if "map_of ?options ''backend'' = None \<and> map_of ?options ''model'' = None
        \<and> map_of ?options ''base_url'' = None
        \<and> map_of ?options ''min_confidence_threshold'' = None
        \<and> map_of ?options ''batch_size'' = None \<and> map_of ?options ''force'' = None"
    using that by (simp add: enhance_llm_options_all_omitted)
  from delegated threshold fields omitted show ?thesis by blast
qed

theorem enhance_defaults_witness:
  "enhance_request example_runtime (to_graph (from_graph classified_graph))
       [(''force'', PBool True)]
     = Inr (default_llm_options\<lparr>lo_force := True\<rparr>, LogEnhanceRequest 3 2 1 float_0_7)
   \<and> take 2 (snd (enhance_graph_endpoint example_runtime enhance_failing
                    \<lparr>eq_graph = from_graph classified_graph,
                     eq_options = [(''force'', PBool True)]\<rparr>))
     = [LogEnhanceRequest 3 2 1 float_0_7,
        EnhanceGraphSync classified_graph (default_llm_options\<lparr>lo_force := True\<rparr>)]
   \<and> enhance_llm_options example_runtime [(''verbose'', PBool True)] = Inr default_llm_options"
proof -
  let ?body = "\<lparr>eq_graph = from_graph classified_graph, eq_options = [(''force'', PBool True)]\<rparr>"
  let ?quiet = "\<lparr>eq_graph = from_graph classified_graph, eq_options = [(''verbose'', PBool True)]\<rparr>"
  let ?llm = "default_llm_options\<lparr>lo_force := True\<rparr>"
  have nodes: "nodes_with_class classified_graph = take 2 (g_nodes classified_graph)"
    by (simp add: nodes_with_class_def classified_graph_def dict_has_def)
  have low: "filter (below_threshold float_0_7) (take 2 (g_nodes classified_graph))
       = take 1 (g_nodes classified_graph)"
    by (simp add: classified_graph_def below_threshold_def dict_get_def float_0_7_def)
  have opts: "enhance_llm_options example_runtime [(''force'', PBool True)] = Inr ?llm"
    by (simp add: enhance_llm_options_def dict_copy_id dict_get_def default_llm_options_def)
  have "\<exists>logged. enhance_request example_runtime classified_graph [(''force'', PBool True)]
     = Inr (?llm, logged)"
    by (simp add: enhance_request_def opts classified_graph_def dict_has_def dict_get_def
        default_llm_options_def float_0_7_def)
  then obtain logged where
    req: "enhance_request example_runtime classified_graph [(''force'', PBool True)]
     = Inr (?llm, logged)" ..
  note inst = enhance_defaults [where rt = example_runtime and body = ?body
      and llm = ?llm and logged = logged and enhance_graph_sync = enhance_failing]
  from inst req have "logged = LogEnhanceRequest (length (g_nodes classified_graph))
                         (length (nodes_with_class classified_graph))
                         (length (filter (below_threshold float_0_7)
                                    (nodes_with_class classified_graph)))
                         float_0_7"
    by (simp add: to_graph_from_graph)
  then have logged: "logged = LogEnhanceRequest 3 2 1 float_0_7"
    unfolding nodes low by (simp add: classified_graph_def)
  from inst req have called: "take 2 (snd (enhance_graph_endpoint example_runtime enhance_failing ?body))
     = [logged, EnhanceGraphSync classified_graph ?llm]"
    by (simp add: to_graph_from_graph)
  from enhance_defaults [where rt = example_runtime and body = ?quiet]
  have "enhance_llm_options example_runtime [(''verbose'', PBool True)] = Inr default_llm_options"
    by simp
  with req logged called show ?thesis by (simp add: to_graph_from_graph)
qed

section \<open>Enhance: the response\<close>

lemma response_fields_from_enhancement:
  "response_fields (from_enhancement e) = enhancement_fields e"
  by (simp add: response_fields_def from_enhancement_def enhancement_fields_def)

text \<open>
  C9. Once the request is accepted, the handler returns a response for whatever result
  the enhancement service gives, successful or not: the graph of the result (decoding
  the response gives it back), its suggestions in order with all seven fields, its
  success flag, its errors, and the two counts of its metadata, 0 for a count that the
  metadata lacks.
\<close>

theorem enhance_response_bundle:
  assumes "enhance_request rt (to_graph (eq_graph body)) (eq_options body) = Inr (llm, logged)"
      and "result = enhance_graph_sync (to_graph (eq_graph body)) llm"
  shows "\<exists>resp effects.
           enhance_graph_endpoint rt enhance_graph_sync body = (Inr resp, effects)
         \<and> to_graph (ep_graph resp) = eres_graph result
         \<and> map response_fields (ep_enhancements resp)
             = map enhancement_fields (eres_enhancements result)
         \<and> ep_success resp = eres_success result
         \<and> ep_errors resp = eres_errors result
         \<and> ep_nodes_evaluated resp
             = (case map_of (eres_metadata result) ''nodes_evaluated'' of
                  None \<Rightarrow> 0 | Some n \<Rightarrow> n)
         \<and> ep_nodes_enhanced resp
             = (case map_of (eres_metadata result) ''nodes_enhanced'' of
                  None \<Rightarrow> 0 | Some n \<Rightarrow> n)"
  unfolding enhance_endpoint_success [OF assms(1)] assms(2)
  by (simp add: Let_def to_graph_from_graph response_fields_from_enhancement metadata_get_def)

theorem enhance_response_bundle_witness:
  "enhance_request example_runtime (to_graph (from_graph classified_graph)) []
     = Inr (default_llm_options, LogEnhanceRequest 3 2 1 float_0_7)
   \<and> eres_success (enhance_failing classified_graph default_llm_options) = False
   \<and> (\<exists>resp effects.
         enhance_graph_endpoint example_runtime enhance_failing
           \<lparr>eq_graph = from_graph classified_graph, eq_options = []\<rparr> = (Inr resp, effects)
       \<and> to_graph (ep_graph resp) = classified_graph
       \<and> map response_fields (ep_enhancements resp)
           = [(''ahu-1'', Some ''AHU'', Finite (6 / 10), ''Air_Handling_Unit'', Finite (9 / 10),
               ''name'', False)]
       \<and> ep_success resp = False
       \<and> ep_errors resp = [''model unavailable'']
       \<and> ep_nodes_evaluated resp = 1
       \<and> ep_nodes_enhanced resp = 0)"
proof -
  let ?body = "\<lparr>eq_graph = from_graph classified_graph, eq_options = []\<rparr>"
  have req: "enhance_request example_runtime (to_graph (from_graph classified_graph)) []
     = Inr (default_llm_options, LogEnhanceRequest 3 2 1 float_0_7)"
    by (simp add: to_graph_from_graph enhance_request_def enhance_llm_options_def dict_copy_id
        dict_get_def default_llm_options_def classified_graph_def dict_has_def float_0_7_def)
  have req': "enhance_request example_runtime (to_graph (eq_graph ?body)) (eq_options ?body)
     = Inr (default_llm_options, LogEnhanceRequest 3 2 1 float_0_7)"
    using req by simp
  have res: "enhance_failing classified_graph default_llm_options
     = enhance_failing (to_graph (eq_graph ?body)) default_llm_options"
    by (simp add: to_graph_from_graph)
  from enhance_response_bundle [where rt = example_runtime and body = ?body
      and llm = default_llm_options and enhance_graph_sync = enhance_failing
      and result = "enhance_failing classified_graph default_llm_options", OF req' res]
  have "\<exists>resp effects.
         enhance_graph_endpoint example_runtime enhance_failing ?body = (Inr resp, effects)
       \<and> to_graph (ep_graph resp) = classified_graph
       \<and> map response_fields (ep_enhancements resp)
           = [(''ahu-1'', Some ''AHU'', Finite (6 / 10), ''Air_Handling_Unit'', Finite (9 / 10),
               ''name'', False)]
       \<and> ep_success resp = False
       \<and> ep_errors resp = [''model unavailable'']
       \<and> ep_nodes_evaluated resp = 1
       \<and> ep_nodes_enhanced resp = 0"
    by (simp add: enhance_failing_def enhancement_fields_def)
  moreover have "eres_success (enhance_failing classified_graph default_llm_options) = False"
    by (simp add: enhance_failing_def)
  ultimately show ?thesis using req by blast
qed

section \<open>Ontology fetch: outcomes\<close>

text \<open>
  An unknown id, or an entry without url, is a 404 and nothing is fetched. Otherwise the
  url is opened once, with timeout 20; an \<^verbatim>\<open>OSError\<close> is a 502 naming the id and the
  message; the body is returned as decoded by \<^verbatim>\<open>json.loads\<close>, or, when that raises
  \<^verbatim>\<open>JSONDecodeError\<close>, as decoded by \<^verbatim>\<open>yaml.safe_load\<close>, whose \<^verbatim>\<open>YAMLError\<close> is a 502 too.
\<close>

lemma get_ontology_not_found:
  "(map_of ontologies ontology_id = None \<longrightarrow>
      get_ontology ontologies io ontology_id
        = (Inl (HTTPException 404 (''Ontology '' @ quoted ontology_id @ '' not found'')), []))
   \<and> (map_of ontologies ontology_id = Some ontology
        \<and> (oi_url ontology = None \<or> oi_url ontology = Some [])
      \<longrightarrow> get_ontology ontologies io ontology_id
        = (Inl (HTTPException 404
                 (''Ontology '' @ quoted ontology_id @ '' does not define a URL'')), []))"
  by (auto simp: get_ontology_def)

lemma caught_by_wider:
  "caught_by exc [OSError] \<Longrightarrow> caught_by exc [OSError, JSONDecodeError, YAMLError]"
  "caught_by exc [YAMLError] \<Longrightarrow> caught_by exc [OSError, JSONDecodeError, YAMLError]"
  by (cases exc; simp)+

lemma get_ontology_fetch:
  assumes "map_of ontologies ontology_id = Some ontology"
      and "oi_url ontology = Some url" and "url \<noteq> []"
  shows "snd (get_ontology ontologies io ontology_id) = [UrlOpen url 20]"
    and "urlopen_read io url 20 = Inl exc \<and> caught_by exc [OSError]
         \<longrightarrow> fst (get_ontology ontologies io ontology_id)
             = Inl (HTTPException 502
                     (''Failed to fetch ontology '' @ quoted ontology_id @ '': ''
                      @ exn_str exc))"
    and "urlopen_read io url 20 = Inr raw \<and> json_loads io raw = Inr payload
         \<longrightarrow> fst (get_ontology ontologies io ontology_id) = Inr payload"
    and "urlopen_read io url 20 = Inr raw \<and> json_loads io raw = Inl exc
           \<and> caught_by exc [JSONDecodeError]
           \<and> yaml_safe_load io (decode_replace io raw) = Inr payload
         \<longrightarrow> fst (get_ontology ontologies io ontology_id) = Inr payload"
    and "urlopen_read io url 20 = Inr raw \<and> json_loads io raw = Inl exc
           \<and> caught_by exc [JSONDecodeError]
           \<and> yaml_safe_load io (decode_replace io raw) = Inl exc'
           \<and> caught_by exc' [YAMLError]
         \<longrightarrow> fst (get_ontology ontologies io ontology_id)
             = Inl (HTTPException 502
                     (''Failed to fetch ontology '' @ quoted ontology_id @ '': ''
                      @ exn_str exc'))"
  using assms by (auto simp: get_ontology_def Let_def caught_by_wider)

text \<open>
  C8. The fetch should fall back to YAML whenever the JSON decoding fails, and report a
  502 when both fail. For a body that is not UTF-8, \<^verbatim>\<open>json.loads\<close> raises
  \<^verbatim>\<open>UnicodeDecodeError\<close>: the inner \<^verbatim>\<open>except json.JSONDecodeError\<close> does not catch it, so
  YAML is never tried (although the fallback decodes with \<^verbatim>\<open>errors="replace"\<close>), and the
  outer clause does not catch it either: the handler ends with that exception, not with
  a 502.
\<close>

theorem get_ontology_undecodable_body:
  "get_ontology ONTOLOGIES undecodable_reply ''brick_v1.4.4''
     = (Inl (Exn UnicodeDecodeError
              (quoted ''utf-8'' @ '' codec can'' @ [CHR 0x27]
               @ ''t decode byte 0xff in position 0: invalid start byte'')),
        [UrlOpen ''https://brickschema.org/schema/1.4.4/Brick.jsonld'' 20])"
  by (simp add: get_ontology_def ONTOLOGIES_def undecodable_reply_def)

end
